theory Spec2Isabelle
  imports Main
begin

section \<open>Python values read by \<open>mlagents/plugins/stats_writer.py\<close>\<close>

text \<open>
  The module reads its argument by reflection (\<open>dir\<close>, \<open>getattr\<close>, \<open>callable\<close>,
  \<open>str\<close>), so a \<open>RunOptions\<close> is modelled as a dynamic Python value and not as a HOL
  record: an attribute may be absent, and reading it then raises.

  \<^item> \<open>PyFloat\<close> carries a float by its \<open>repr\<close> text, the only thing the module
    observes of it.
  \<^item> \<open>PyFunc\<close> is a callable (function, bound method, class) with its \<open>repr\<close> text.
  \<^item> \<open>PyObj s r attrs\<close> is an instance of a class (a settings object, an enum
    member): \<open>s\<close> is what \<open>str\<close> gives, \<open>r\<close> what \<open>repr\<close> gives, and \<open>attrs\<close>
    lists the names \<open>dir\<close> yields, each with the value \<open>getattr\<close> reads for it. An
    instance is not callable and has a true truth value.
  \<^item> A \<open>dict\<close> is an association list in insertion order.
  Strings are ASCII.
\<close>

datatype pyval =
    PyNone
  | PyBool bool
  | PyInt int
  | PyFloat string
  | PyStr string
  | PyList "pyval list"
  | PyDict "(pyval \<times> pyval) list"
  | PyFunc string
  | PyObj string string "(string \<times> pyval) list"

datatype py_error =
    NameError string
  | AttributeError string
  | TypeError string
  | OtherError string

type_synonym py_dict = "(pyval \<times> pyval) list"

subsection \<open>\<open>dict\<close>: item assignment, \<open>update\<close>, \<open>items\<close>\<close>

text \<open>
  \<open>d[k] = v\<close>: an existing key keeps its place and its key object and takes the new
  value; a new key goes last. Keys are compared with HOL equality, which is Python's
  \<open>==\<close> on strings (every key this module stores is a string).
\<close>

fun dict_set :: "py_dict \<Rightarrow> pyval \<Rightarrow> pyval \<Rightarrow> py_dict" where
  "dict_set [] k v = [(k, v)]"
| "dict_set ((k', v') # d) k v =
     (if k' = k then (k', v) # d else (k', v') # dict_set d k v)"

definition dict_get :: "py_dict \<Rightarrow> pyval \<Rightarrow> pyval option" where
  "dict_get d k = map_of d k"

text \<open>\<open>d.update(other)\<close> assigns the items of \<open>other\<close> in their order.\<close>

definition dict_update :: "py_dict \<Rightarrow> py_dict \<Rightarrow> py_dict" where
  "dict_update d other = fold (\<lambda>(k, v) acc. dict_set acc k v) other d"

text \<open>A dict display or comprehension: the items are assigned to an empty dict.\<close>

definition dict_of_items :: "(pyval \<times> pyval) list \<Rightarrow> py_dict" where
  "dict_of_items kvs = dict_update [] kvs"

text \<open>\<open>x.items()\<close>: only a dict has the method. The settings classes define no
  attribute \<open>items\<close>; an instance whose table holds one is not covered (Python would
  call it, or raise \<open>TypeError\<close> for a value that is not callable).\<close>

fun py_items :: "pyval \<Rightarrow> py_error + (pyval \<times> pyval) list" where
  "py_items (PyDict kvs) = Inr kvs"
| "py_items _ = Inl (AttributeError ''items'')"

subsection \<open>\<open>str\<close>, \<open>repr\<close> and formatting\<close>

definition digit_char :: "nat \<Rightarrow> char" where
  "digit_char n = ''0123456789'' ! n"

fun nat_digits :: "nat \<Rightarrow> string" where
  "nat_digits n =
     (if n < 10 then [digit_char n] else nat_digits (n div 10) @ [digit_char (n mod 10)])"

declare nat_digits.simps [simp del]

definition int_str :: "int \<Rightarrow> string" where
  "int_str i = (if i < 0 then CHR ''-'' # nat_digits (nat (- i)) else nat_digits (nat i))"

definition hex_char :: "nat \<Rightarrow> char" where
  "hex_char n = ''0123456789abcdef'' ! n"

text \<open>
  \<open>repr\<close> of a string: single quotes, unless the text holds a single quote and no
  double quote; the quote and the backslash are escaped, tab, newline and carriage
  return are written \<open>\t\<close>, \<open>\n\<close>, \<open>\r\<close>, and any other control character as
  \<open>\xNN\<close>.
\<close>

definition repr_char :: "char \<Rightarrow> char \<Rightarrow> string" where
  "repr_char q c =
     (if c = q \<or> c = CHR 0x5C then [CHR 0x5C, c]
      else if c = CHR 0x09 then [CHR 0x5C, CHR ''t'']
      else if c = CHR 0x0A then [CHR 0x5C, CHR ''n'']
      else if c = CHR 0x0D then [CHR 0x5C, CHR ''r'']
      else if (of_char c :: nat) < 32 \<or> (of_char c :: nat) = 127
        then [CHR 0x5C, CHR ''x'', hex_char (of_char c div 16), hex_char (of_char c mod 16)]
      else [c])"

definition str_repr :: "string \<Rightarrow> string" where
  "str_repr s =
     (let q = (if CHR 0x27 \<in> set s \<and> CHR 0x22 \<notin> set s then CHR 0x22 else CHR 0x27)
      in q # concat (map (repr_char q) s) @ [q])"

fun join :: "string \<Rightarrow> string list \<Rightarrow> string" where
  "join sep [] = []"
| "join sep [x] = x"
| "join sep (x # y # ys) = x @ sep @ join sep (y # ys)"

fun py_repr :: "pyval \<Rightarrow> string" where
  "py_repr PyNone = ''None''"
| "py_repr (PyBool b) = (if b then ''True'' else ''False'')"
| "py_repr (PyInt i) = int_str i"
| "py_repr (PyFloat r) = r"
| "py_repr (PyStr s) = str_repr s"
| "py_repr (PyList xs) = ''['' @ join '', '' (map py_repr xs) @ '']''"
| "py_repr (PyDict kvs) =
     ''{'' @ join '', '' (map (\<lambda>kv. py_repr (fst kv) @ '': '' @ py_repr (snd kv)) kvs) @ ''}''"
| "py_repr (PyFunc r) = r"
| "py_repr (PyObj s r attrs) = r"

text \<open>\<open>str(x)\<close>, which is also what \<open>f"{x}"\<close> formats: the text itself for a string,
  the class's \<open>__str__\<close> for an instance, \<open>repr\<close> otherwise.\<close>

fun py_str :: "pyval \<Rightarrow> string" where
  "py_str (PyStr s) = s"
| "py_str (PyObj s r attrs) = s"
| "py_str v = py_repr v"

text \<open>Truth value, as \<open>not x\<close> tests it.\<close>

fun py_truthy :: "pyval \<Rightarrow> bool" where
  "py_truthy PyNone = False"
| "py_truthy (PyBool b) = b"
| "py_truthy (PyInt i) = (i \<noteq> 0)"
| "py_truthy (PyFloat r) = (r \<noteq> ''0.0'' \<and> r \<noteq> ''-0.0'')"
| "py_truthy (PyStr s) = (s \<noteq> [])"
| "py_truthy (PyList xs) = (xs \<noteq> [])"
| "py_truthy (PyDict kvs) = (kvs \<noteq> [])"
| "py_truthy (PyFunc r) = True"
| "py_truthy (PyObj s r attrs) = True"

subsection \<open>Reflection: \<open>dir\<close>, \<open>getattr\<close>, \<open>callable\<close>\<close>

text \<open>
  The names \<open>dir(x)\<close> lists, each with the value \<open>getattr(x, name)\<close> reads. An
  instance carries its own table. For the built-in types the table holds their data
  attributes only: their methods and double-underscore names are left out, since
  \<open>get_attributes\<close> filters both away and the module reads none of them by name.
\<close>

fun py_attrs :: "pyval \<Rightarrow> (string \<times> pyval) list" where
  "py_attrs (PyObj s r attrs) = attrs"
| "py_attrs (PyInt i) =
     [(''denominator'', PyInt 1), (''imag'', PyInt 0), (''numerator'', PyInt i), (''real'', PyInt i)]"
| "py_attrs (PyBool b) =
     [(''denominator'', PyInt 1), (''imag'', PyInt 0),
      (''numerator'', PyInt (if b then 1 else 0)), (''real'', PyInt (if b then 1 else 0))]"
| "py_attrs (PyFloat r) = [(''imag'', PyFloat ''0.0''), (''real'', PyFloat r)]"
| "py_attrs _ = []"

definition py_dir :: "pyval \<Rightarrow> string list" where
  "py_dir x = map fst (py_attrs x)"

definition getattr :: "pyval \<Rightarrow> string \<Rightarrow> py_error + pyval" where
  "getattr x name =
     (case map_of (py_attrs x) name of
        None \<Rightarrow> Inl (AttributeError name)
      | Some v \<Rightarrow> Inr v)"

fun callable :: "pyval \<Rightarrow> bool" where
  "callable (PyFunc r) = True"
| "callable _ = False"

definition startswith :: "string \<Rightarrow> string \<Rightarrow> bool" where
  "startswith s p = (take (length p) s = p)"

text \<open>Sequencing of computations that may raise: the first error wins.\<close>

fun bind_err :: "py_error + 'a \<Rightarrow> ('a \<Rightarrow> py_error + 'b) \<Rightarrow> py_error + 'b" where
  "bind_err (Inl e) f = Inl e"
| "bind_err (Inr a) f = f a"

fun sequence_err :: "(py_error + 'a) list \<Rightarrow> py_error + 'a list" where
  "sequence_err [] = Inr []"
| "sequence_err (Inl e # rs) = Inl e"
| "sequence_err (Inr a # rs) = bind_err (sequence_err rs) (\<lambda>as. Inr (a # as))"

subsection \<open>The standard library's JSON encoder and decoder\<close>

text \<open>
  \<open>json.dumps\<close> and \<open>json.loads\<close> of the Python standard library, at the level of
  the JSON document instead of its text. Encoding raises \<open>TypeError\<close> on a value that
  is not \<open>None\<close>, a bool, a number, a string, a list or a dict, and on a dict key
  that is not \<open>None\<close>, a bool, a number or a string; such keys are written as
  strings. Decoding a document never fails.
\<close>

datatype json =
    JNull
  | JBool bool
  | JInt int
  | JFloat string
  | JString string
  | JArray "json list"
  | JObject "(string \<times> json) list"

fun json_key :: "pyval \<Rightarrow> py_error + string" where
  "json_key (PyStr s) = Inr s"
| "json_key (PyFloat r) = Inr r"
| "json_key (PyBool b) = Inr (if b then ''true'' else ''false'')"
| "json_key (PyInt i) = Inr (int_str i)"
| "json_key PyNone = Inr ''null''"
| "json_key _ = Inl (TypeError ''keys must be str, int, float, bool or None'')"

fun json_dumps :: "pyval \<Rightarrow> py_error + json" where
  "json_dumps PyNone = Inr JNull"
| "json_dumps (PyBool b) = Inr (JBool b)"
| "json_dumps (PyInt i) = Inr (JInt i)"
| "json_dumps (PyFloat r) = Inr (JFloat r)"
| "json_dumps (PyStr s) = Inr (JString s)"
| "json_dumps (PyList xs) = bind_err (sequence_err (map json_dumps xs)) (\<lambda>js. Inr (JArray js))"
| "json_dumps (PyDict kvs) =
     bind_err
       (sequence_err
          (map (\<lambda>kv. bind_err (json_key (fst kv))
                        (\<lambda>k. bind_err (json_dumps (snd kv)) (\<lambda>j. Inr (k, j)))) kvs))
       (\<lambda>kjs. Inr (JObject kjs))"
| "json_dumps (PyFunc r) = Inl (TypeError ''Object of type function is not JSON serializable'')"
| "json_dumps (PyObj s r attrs) = Inl (TypeError ''Object is not JSON serializable'')"

fun json_loads :: "json \<Rightarrow> pyval" where
  "json_loads JNull = PyNone"
| "json_loads (JBool b) = PyBool b"
| "json_loads (JInt i) = PyInt i"
| "json_loads (JFloat r) = PyFloat r"
| "json_loads (JString s) = PyStr s"
| "json_loads (JArray js) = PyList (map json_loads js)"
| "json_loads (JObject kjs) =
     PyDict (dict_of_items (map (\<lambda>kj. (PyStr (fst kj), json_loads (snd kj))) kjs))"

section \<open>The module \<open>mlagents/plugins/stats_writer.py\<close>\<close>

subsection \<open>Names bound at module level\<close>

text \<open>
  What the module's \<open>import\<close> statements, its assignment to \<open>logger\<close> and its four
  \<open>def\<close>s bind (lines 1 to 19, 23, 31, 41 and 93). A name that is neither here nor a
  built-in raises \<open>NameError\<close> when it is read. There is no \<open>import json\<close>, and
  \<open>json\<close> is not a built-in.
\<close>

definition module_globals :: "string list" where
  "module_globals =
     [''sys'', ''List'', ''importlib_metadata'', ''StatsWriter'', ''logging_util'',
      ''ML_AGENTS_STATS_WRITER'', ''RunOptions'', ''TensorboardWriter'', ''GaugeWriter'',
      ''ConsoleWriter'', ''WandbWriter'', ''logger'', ''is_jsonable'',
      ''to_json_serializable'', ''get_default_stats_writers'',
      ''register_stats_writer_plugins'']"

definition read_global :: "string \<Rightarrow> py_error + unit" where
  "read_global name = (if name \<in> set module_globals then Inr () else Inl (NameError name))"

subsection \<open>\<open>is_jsonable\<close> and \<open>to_json_serializable\<close>\<close>

text \<open>
  \<^verbatim>\<open>
  def is_jsonable(x):
      try:
          json.dumps(x)
          return True
      except:
          return False
  \<close>
  The \<open>try\<close> body first reads the global \<open>json\<close>, then calls its \<open>dumps\<close>; the
  bare \<open>except\<close> turns any exception of either step into \<open>False\<close>.
\<close>

definition is_jsonable :: "pyval \<Rightarrow> bool" where
  "is_jsonable x =
     (case bind_err (read_global ''json'') (\<lambda>_. json_dumps x) of
        Inr _ \<Rightarrow> True
      | Inl _ \<Rightarrow> False)"

text \<open>
  \<^verbatim>\<open>
  def to_json_serializable(d):
      new_dict = {}
      for key, value in d.items():
          if not is_jsonable(key):
              key = str(key)
          if not is_jsonable(value):
              value = str(value)
          new_dict[key] = value
      return new_dict
  \<close>
\<close>

fun to_json_serializable_loop :: "(pyval \<times> pyval) list \<Rightarrow> py_dict \<Rightarrow> py_dict" where
  "to_json_serializable_loop [] new_dict = new_dict"
| "to_json_serializable_loop ((key, value) # rest) new_dict =
     (let key' = (if \<not> is_jsonable key then PyStr (py_str key) else key);
          value' = (if \<not> is_jsonable value then PyStr (py_str value) else value)
      in to_json_serializable_loop rest (dict_set new_dict key' value'))"

definition to_json_serializable :: "py_dict \<Rightarrow> py_dict" where
  "to_json_serializable d = to_json_serializable_loop d []"

section \<open>Effects: standard output and the logger\<close>

text \<open>
  The module prints configuration snapshots and calls \<open>logger.warning\<close>,
  \<open>logger.debug\<close> and \<open>logger.exception\<close>. Each call appends one event to the
  trace, which every function takes and returns. A computation either raises or
  returns a value, and the trace it leaves is kept in both cases.
\<close>

datatype event =
    Print string
  | LogWarning string
  | LogDebug string
  | LogException string py_error

type_synonym 'a io = "event list \<Rightarrow> (py_error + 'a) \<times> event list"

definition io_return :: "'a \<Rightarrow> 'a io" where
  "io_return a out = (Inr a, out)"

definition io_lift :: "py_error + 'a \<Rightarrow> 'a io" where
  "io_lift r out = (r, out)"

definition io_bind :: "'a io \<Rightarrow> ('a \<Rightarrow> 'b io) \<Rightarrow> 'b io" where
  "io_bind m f out =
     (case m out of
        (Inl e, out') \<Rightarrow> (Inl e, out')
      | (Inr a, out') \<Rightarrow> f a out')"

definition emit :: "event \<Rightarrow> unit io" where
  "emit ev out = (Inr (), out @ [ev])"

section \<open>The default sinks\<close>

text \<open>
  The four writer classes come from \<open>mlagents.trainers.stats\<close>; an instance is
  recorded by its class and the arguments of its construction. \<open>PluginWriter\<close> stands
  for any object a third-party plugin hands back.
\<close>

datatype stats_writer =
    TensorboardWriter pyval bool "string list"
  | GaugeWriter
  | ConsoleWriter
  | WandbWriter py_dict
  | PluginWriter string

subsection \<open>\<open>get_attributes\<close> (the helper nested in \<open>get_default_stats_writers\<close>)\<close>

text \<open>
  \<^verbatim>\<open>
  def get_attributes(obj):
      return {attr: getattr(obj, attr) for attr in dir(obj)
              if not callable(getattr(obj, attr)) and not attr.startswith("__")}
  \<close>
\<close>

fun get_attributes_loop :: "pyval \<Rightarrow> string list \<Rightarrow> py_dict \<Rightarrow> py_error + py_dict" where
  "get_attributes_loop obj [] d = Inr d"
| "get_attributes_loop obj (attr # rest) d =
     bind_err (getattr obj attr) (\<lambda>v.
       if \<not> callable v \<and> \<not> startswith attr ''__''
       then get_attributes_loop obj rest (dict_set d (PyStr attr) v)
       else get_attributes_loop obj rest d)"

definition get_attributes :: "pyval \<Rightarrow> py_error + py_dict" where
  "get_attributes obj = get_attributes_loop obj (py_dir obj) []"

text \<open>
  The comprehensions \<open>{f"{key}": val for key, val in d.items()}\<close> (empty prefix) and
  \<open>{f"{setting_name}_{key}": val for key, val in d.items()}\<close> (prefix
  \<open>setting_name\<close> followed by an underscore).
\<close>

definition format_keys :: "string \<Rightarrow> py_dict \<Rightarrow> py_dict" where
  "format_keys prefix d = dict_of_items (map (\<lambda>(key, val). (PyStr (prefix @ py_str key), val)) d)"

subsection \<open>The two extraction loops of \<open>get_default_stats_writers\<close>\<close>

text \<open>
  \<^verbatim>\<open>
  for behavior_name, behavior_settings in run_options.behaviors.items():
      hyperparams = get_attributes(behavior_settings.hyperparameters)
      behavior_data = get_attributes(behavior_settings)
      extracted_data.update({f"{key}": val for key, val in hyperparams.items()})
      extracted_data.update({f"{key}": val for key, val in behavior_data.items()})
  \<close>
\<close>

fun behaviors_loop :: "(pyval \<times> pyval) list \<Rightarrow> py_dict \<Rightarrow> py_error + py_dict" where
  "behaviors_loop [] extracted_data = Inr extracted_data"
| "behaviors_loop ((behavior_name, behavior_settings) # rest) extracted_data =
     bind_err (getattr behavior_settings ''hyperparameters'') (\<lambda>hp.
     bind_err (get_attributes hp) (\<lambda>hyperparams.
     bind_err (get_attributes behavior_settings) (\<lambda>behavior_data.
       behaviors_loop rest
         (dict_update (dict_update extracted_data (format_keys [] hyperparams))
            (format_keys [] behavior_data)))))"

text \<open>
  \<^verbatim>\<open>
  settings_list = ["engine_settings", "env_settings", "torch_settings"]
  for setting_name in settings_list:
      setting_data = get_attributes(getattr(run_options, setting_name))
      extracted_data.update({f"{setting_name}_{key}": val for key, val in setting_data.items()})
  \<close>
\<close>

definition settings_list :: "string list" where
  "settings_list = [''engine_settings'', ''env_settings'', ''torch_settings'']"

fun settings_loop :: "pyval \<Rightarrow> string list \<Rightarrow> py_dict \<Rightarrow> py_error + py_dict" where
  "settings_loop run_options [] extracted_data = Inr extracted_data"
| "settings_loop run_options (setting_name # rest) extracted_data =
     bind_err (getattr run_options setting_name) (\<lambda>setting.
     bind_err (get_attributes setting) (\<lambda>setting_data.
       settings_loop run_options rest
         (dict_update extracted_data (format_keys (setting_name @ ''_'') setting_data))))"

text \<open>
  Lines 62 to 75 as one computation: the empty \<open>extracted_data\<close>, the loop over
  \<open>run_options.behaviors.items()\<close>, then the loop over \<open>settings_list\<close>.
\<close>

definition extract_data :: "pyval \<Rightarrow> py_error + py_dict" where
  "extract_data run_options =
     bind_err (bind_err (getattr run_options ''behaviors'') py_items) (\<lambda>behaviors.
     bind_err (behaviors_loop behaviors []) (\<lambda>extracted_data.
       settings_loop run_options settings_list extracted_data))"

subsection \<open>\<open>get_default_stats_writers\<close>\<close>

text \<open>\<open>print(f"{run_options.<name> = }")\<close>: the attribute is read, then printed with
  its \<open>repr\<close>.\<close>

definition print_attr :: "pyval \<Rightarrow> string \<Rightarrow> unit io" where
  "print_attr run_options name =
     io_bind (io_lift (getattr run_options name)) (\<lambda>v.
       emit (Print (''run_options.'' @ name @ '' = '' @ py_repr v)))"

definition get_default_stats_writers :: "pyval \<Rightarrow> stats_writer list io" where
  "get_default_stats_writers run_options =
     io_bind (io_lift (getattr run_options ''checkpoint_settings'')) (\<lambda>checkpoint_settings.
     io_bind (print_attr run_options ''behaviors'') (\<lambda>_.
     io_bind (print_attr run_options ''checkpoint_settings'') (\<lambda>_.
     io_bind (print_attr run_options ''engine_settings'') (\<lambda>_.
     io_bind (print_attr run_options ''environment_parameters'') (\<lambda>_.
     io_bind (print_attr run_options ''env_settings'') (\<lambda>_.
     io_bind (print_attr run_options ''torch_settings'') (\<lambda>_.
     io_bind (io_lift (extract_data run_options)) (\<lambda>extracted_data.
     io_bind (emit (Print (''extracted_data = '' @ py_repr (PyDict extracted_data)))) (\<lambda>_.
     io_bind (io_return (to_json_serializable extracted_data)) (\<lambda>extracted_data.
     io_bind (emit (Print (''After serialisation, extracted_data = ''
                             @ py_repr (PyDict extracted_data)))) (\<lambda>_.
     io_bind (io_lift (getattr checkpoint_settings ''write_path'')) (\<lambda>write_path.
     io_bind (io_lift (getattr checkpoint_settings ''resume'')) (\<lambda>resume.
       io_return
         [TensorboardWriter write_path (\<not> py_truthy resume) [''Is Training'', ''Step''],
          GaugeWriter,
          ConsoleWriter,
          WandbWriter extracted_data])))))))))))))"

section \<open>Plugin discovery\<close>

text \<open>
  An entry point of \<open>importlib_metadata\<close> has a name and a \<open>load\<close> that either raises
  or gives the plugin function. A plugin function takes the run options and raises or
  returns an object: \<open>Sinks ws\<close> is a list (or other sized collection) of objects,
  \<open>NoLen t\<close> an object of type \<open>t\<close> that has no \<open>len\<close>.
\<close>

datatype plugin_value =
    Sinks "stats_writer list"
  | NoLen string

type_synonym plugin_func = "pyval \<Rightarrow> plugin_value io"

record entry_point =
  ep_name :: string
  ep_load :: "py_error + plugin_func"

fun py_len :: "plugin_value \<Rightarrow> py_error + nat" where
  "py_len (Sinks ws) = Inr (length ws)"
| "py_len (NoLen t) = Inl (TypeError (''object of type '' @ t @ '' has no len()''))"

fun elements :: "plugin_value \<Rightarrow> stats_writer list" where
  "elements (Sinks ws) = ws"
| "elements (NoLen t) = []"

text \<open>
  The body of the \<open>try\<close> block, and the \<open>try\<close> statement with its
  \<open>except BaseException\<close> handler:
  \<^verbatim>\<open>
  try:
      logger.debug(f"Initializing StatsWriter plugins: {entry_point.name}")
      plugin_func = entry_point.load()
      plugin_stats_writers = plugin_func(run_options)
      logger.debug(f"Found {len(plugin_stats_writers)} StatsWriters for plugin {entry_point.name}")
      all_stats_writers += plugin_stats_writers
  except BaseException:
      logger.exception(f"Error initializing StatsWriter plugins for {entry_point.name}. This plugin will not be used.")
  \<close>
\<close>

definition initializing_message :: "entry_point \<Rightarrow> string" where
  "initializing_message entry_point =
     ''Initializing StatsWriter plugins: '' @ ep_name entry_point"

definition found_message :: "nat \<Rightarrow> entry_point \<Rightarrow> string" where
  "found_message n entry_point =
     ''Found '' @ int_str (int n) @ '' StatsWriters for plugin '' @ ep_name entry_point"

definition try_body :: "entry_point \<Rightarrow> pyval \<Rightarrow> stats_writer list \<Rightarrow> stats_writer list io" where
  "try_body entry_point run_options all_stats_writers =
     io_bind (emit (LogDebug (initializing_message entry_point))) (\<lambda>_.
     io_bind (io_lift (ep_load entry_point)) (\<lambda>plugin_func.
     io_bind (plugin_func run_options) (\<lambda>plugin_stats_writers.
     io_bind (io_lift (py_len plugin_stats_writers)) (\<lambda>n.
     io_bind (emit (LogDebug (found_message n entry_point))) (\<lambda>_.
       io_return (all_stats_writers @ elements plugin_stats_writers))))))"

definition error_message :: "entry_point \<Rightarrow> string" where
  "error_message entry_point =
     ''Error initializing StatsWriter plugins for '' @ ep_name entry_point
       @ ''. This plugin will not be used.''"

definition try_plugin :: "entry_point \<Rightarrow> pyval \<Rightarrow> stats_writer list \<Rightarrow> stats_writer list io" where
  "try_plugin entry_point run_options all_stats_writers out =
     (case try_body entry_point run_options all_stats_writers out of
        (Inr all', out') \<Rightarrow> (Inr all', out')
      | (Inl e, out') \<Rightarrow>
          (Inr all_stats_writers, out' @ [LogException (error_message entry_point) e]))"

fun plugins_loop :: "entry_point list \<Rightarrow> pyval \<Rightarrow> stats_writer list \<Rightarrow> stats_writer list io" where
  "plugins_loop [] run_options all_stats_writers out = (Inr all_stats_writers, out)"
| "plugins_loop (entry_point # rest) run_options all_stats_writers out =
     (case try_plugin entry_point run_options all_stats_writers out of
        (Inl e, out') \<Rightarrow> (Inl e, out')
      | (Inr all', out') \<Rightarrow> plugins_loop rest run_options all' out')"

text \<open>
  \<open>register_stats_writer_plugins\<close>. The constant \<open>ML_AGENTS_STATS_WRITER\<close> is
  imported from \<open>mlagents.plugins\<close> and the mapping \<open>importlib_metadata.entry_points()\<close>
  comes from the host: both are parameters, \<open>stats_writer_key\<close> and \<open>entry_points\<close>.
\<close>

definition warning_message :: "string \<Rightarrow> string" where
  "warning_message stats_writer_key =
     ''Unable to find any entry points for '' @ stats_writer_key @ '', even the default ones. ''
       @ ''Uninstalling and reinstalling ml-agents via pip should resolve. ''
       @ ''Using default plugins for now.''"

definition register_stats_writer_plugins ::
  "string \<Rightarrow> (string \<rightharpoonup> entry_point list) \<Rightarrow> pyval \<Rightarrow> stats_writer list io" where
  "register_stats_writer_plugins stats_writer_key entry_points run_options =
     (case entry_points stats_writer_key of
        None \<Rightarrow>
          io_bind (emit (LogWarning (warning_message stats_writer_key))) (\<lambda>_.
            get_default_stats_writers run_options)
      | Some eps \<Rightarrow> plugins_loop eps run_options [])"

text \<open>
  \<open>get_default_stats_writers\<close> as the plugin function that \<open>load\<close> gives for the
  package's own entry point: the docstring of \<open>register_stats_writer_plugins\<close> counts
  the default one among the plugins it registers.
\<close>

definition default_plugin :: plugin_func where
  "default_plugin run_options =
     io_bind (get_default_stats_writers run_options) (\<lambda>ws. io_return (Sinks ws))"

section \<open>Predicates and sample values\<close>

fun is_str :: "pyval \<Rightarrow> bool" where
  "is_str (PyStr s) = True"
| "is_str _ = False"

definition has_attr :: "pyval \<Rightarrow> string \<Rightarrow> bool" where
  "has_attr x name = (case getattr x name of Inr _ \<Rightarrow> True | Inl _ \<Rightarrow> False)"

text \<open>
  A fully populated \<open>RunOptions\<close>, as the parameter's annotation promises: every
  attribute \<open>get_default_stats_writers\<close> reads is there. These are the six attributes
  of the run options that lines 49 to 55 read, \<open>behaviors\<close> being a dict whose values
  all have \<open>hyperparameters\<close> (line 66), and \<open>write_path\<close> and \<open>resume\<close> of the
  checkpoint settings (lines 83 and 84).
\<close>

definition fully_populated :: "pyval \<Rightarrow> bool" where
  "fully_populated run_options =
     (has_attr run_options ''checkpoint_settings'' \<and>
      has_attr run_options ''behaviors'' \<and>
      has_attr run_options ''engine_settings'' \<and>
      has_attr run_options ''environment_parameters'' \<and>
      has_attr run_options ''env_settings'' \<and>
      has_attr run_options ''torch_settings'' \<and>
      (case getattr run_options ''behaviors'' of
         Inr (PyDict kvs) \<Rightarrow> list_all (\<lambda>kv. has_attr (snd kv) ''hyperparameters'') kvs
       | _ \<Rightarrow> False) \<and>
      (case getattr run_options ''checkpoint_settings'' of
         Inr cs \<Rightarrow> has_attr cs ''write_path'' \<and> has_attr cs ''resume''
       | Inl _ \<Rightarrow> False))"

text \<open>What a successful \<open>get_default_stats_writers\<close> prints: the six attributes of the
  run options, then the extracted data before and after \<open>to_json_serializable\<close>.\<close>

definition printed :: "pyval \<Rightarrow> pyval \<Rightarrow> pyval \<Rightarrow> pyval \<Rightarrow> pyval \<Rightarrow> pyval \<Rightarrow> py_dict \<Rightarrow> event list" where
  "printed b cs es ep ev ts d =
     [Print (''run_options.behaviors = '' @ py_repr b),
      Print (''run_options.checkpoint_settings = '' @ py_repr cs),
      Print (''run_options.engine_settings = '' @ py_repr es),
      Print (''run_options.environment_parameters = '' @ py_repr ep),
      Print (''run_options.env_settings = '' @ py_repr ev),
      Print (''run_options.torch_settings = '' @ py_repr ts),
      Print (''extracted_data = '' @ py_repr (PyDict d)),
      Print (''After serialisation, extracted_data = '' @ py_repr (PyDict (to_json_serializable d)))]"

text \<open>A small run: one behavior, trained with PPO.\<close>

definition sample_hyperparameters :: pyval where
  "sample_hyperparameters =
     PyObj ''PPOSettings(batch_size=1024, learning_rate=0.0003)''
           ''PPOSettings(batch_size=1024, learning_rate=0.0003)''
       [(''__doc__'', PyNone),
        (''as_dict'', PyFunc ''<bound method ExportableSettings.as_dict>''),
        (''batch_size'', PyInt 1024),
        (''learning_rate'', PyFloat ''0.0003'')]"

definition sample_behavior :: pyval where
  "sample_behavior =
     PyObj ''TrainerSettings(max_steps=500000)'' ''TrainerSettings(max_steps=500000)''
       [(''hyperparameters'', sample_hyperparameters),
        (''max_steps'', PyInt 500000),
        (''trainer_type'', PyStr ''ppo'')]"

definition sample_checkpoint_settings :: pyval where
  "sample_checkpoint_settings =
     PyObj ''CheckpointSettings(run_id=ball)'' ''CheckpointSettings(run_id=ball)''
       [(''resume'', PyBool True),
        (''run_id'', PyStr ''ball''),
        (''write_path'', PyStr ''results/ball'')]"

definition sample_run_options :: pyval where
  "sample_run_options =
     PyObj ''RunOptions()'' ''RunOptions()''
       [(''behaviors'', PyDict [(PyStr ''3DBall'', sample_behavior)]),
        (''checkpoint_settings'', sample_checkpoint_settings),
        (''engine_settings'', PyObj ''EngineSettings()'' ''EngineSettings()''
                                [(''time_scale'', PyInt 20)]),
        (''env_settings'', PyObj ''EnvironmentSettings()'' ''EnvironmentSettings()''
                             [(''env_path'', PyNone), (''num_envs'', PyInt 1)]),
        (''environment_parameters'', PyNone),
        (''torch_settings'', PyObj ''TorchSettings()'' ''TorchSettings()''
                               [(''device'', PyNone)])]"

text \<open>What the two loops extract from it, what \<open>to_json_serializable\<close> makes of that,
  and the four sinks.\<close>

definition sample_config :: py_dict where
  "sample_config =
     [(PyStr ''batch_size'', PyStr ''1024''),
      (PyStr ''learning_rate'', PyStr ''0.0003''),
      (PyStr ''hyperparameters'', PyStr ''PPOSettings(batch_size=1024, learning_rate=0.0003)''),
      (PyStr ''max_steps'', PyStr ''500000''),
      (PyStr ''trainer_type'', PyStr ''ppo''),
      (PyStr ''engine_settings_time_scale'', PyStr ''20''),
      (PyStr ''env_settings_env_path'', PyStr ''None''),
      (PyStr ''env_settings_num_envs'', PyStr ''1''),
      (PyStr ''torch_settings_device'', PyStr ''None'')]"

definition sample_sinks :: "stats_writer list" where
  "sample_sinks =
     [TensorboardWriter (PyStr ''results/ball'') False [''Is Training'', ''Step''],
      GaugeWriter, ConsoleWriter, WandbWriter sample_config]"

definition sample_extracted :: py_dict where
  "sample_extracted =
     [(PyStr ''batch_size'', PyInt 1024),
      (PyStr ''learning_rate'', PyFloat ''0.0003''),
      (PyStr ''hyperparameters'', sample_hyperparameters),
      (PyStr ''max_steps'', PyInt 500000),
      (PyStr ''trainer_type'', PyStr ''ppo''),
      (PyStr ''engine_settings_time_scale'', PyInt 20),
      (PyStr ''env_settings_env_path'', PyNone),
      (PyStr ''env_settings_num_envs'', PyInt 1),
      (PyStr ''torch_settings_device'', PyNone)]"

text \<open>The same run with a behavior that has no \<open>hyperparameters\<close>.\<close>

definition broken_run_options :: pyval where
  "broken_run_options =
     PyObj ''RunOptions()'' ''RunOptions()''
       [(''behaviors'', PyDict [(PyStr ''3DBall'',
            PyObj ''TrainerSettings()'' ''TrainerSettings()'' [(''max_steps'', PyInt 500000)])]),
        (''checkpoint_settings'', sample_checkpoint_settings),
        (''engine_settings'', PyNone),
        (''env_settings'', PyNone),
        (''environment_parameters'', PyNone),
        (''torch_settings'', PyNone)]"

text \<open>A behavior one of whose own attributes has the name of one of its
  hyperparameters.\<close>

definition colliding_behavior :: pyval where
  "colliding_behavior =
     PyObj ''TrainerSettings()'' ''TrainerSettings()''
       [(''batch_size'', PyInt 7),
        (''hyperparameters'', sample_hyperparameters)]"

text \<open>A run whose last behavior is that one.\<close>

definition colliding_run_options :: pyval where
  "colliding_run_options =
     PyObj ''RunOptions()'' ''RunOptions()''
       [(''behaviors'', PyDict [(PyStr ''3DBall'', sample_behavior),
                                (PyStr ''Walker'', colliding_behavior)]),
        (''checkpoint_settings'', sample_checkpoint_settings),
        (''engine_settings'', PyNone),
        (''env_settings'', PyNone),
        (''environment_parameters'', PyNone),
        (''torch_settings'', PyNone)]"

text \<open>Entry points: the package's own, a third-party plugin that returns one sink, a
  plugin whose function raises, and one that cannot be loaded.\<close>

definition default_entry_point :: entry_point where
  "default_entry_point = \<lparr>ep_name = ''default'', ep_load = Inr default_plugin\<rparr>"

definition csv_entry_point :: entry_point where
  "csv_entry_point =
     \<lparr>ep_name = ''csv'',
      ep_load = Inr (\<lambda>run_options. io_return (Sinks [PluginWriter ''CsvWriter'']))\<rparr>"

definition raising_entry_point :: entry_point where
  "raising_entry_point =
     \<lparr>ep_name = ''raising'',
      ep_load = Inr (\<lambda>run_options. io_lift (Inl (OtherError ''RuntimeError'')))\<rparr>"

definition unloadable_entry_point :: entry_point where
  "unloadable_entry_point =
     \<lparr>ep_name = ''unloadable'', ep_load = Inl (OtherError ''ModuleNotFoundError'')\<rparr>"

section \<open>Lemmas\<close>

subsection \<open>Effects and dicts\<close>

lemma io_bind_lift_Inr [simp]: "io_bind (io_lift (Inr a)) f out = f a out"
  by (simp add: io_bind_def io_lift_def)

lemma io_bind_lift_Inl [simp]: "io_bind (io_lift (Inl e)) f out = (Inl e, out)"
  by (simp add: io_bind_def io_lift_def)

lemma io_bind_emit [simp]: "io_bind (emit ev) f out = f () (out @ [ev])"
  by (simp add: io_bind_def emit_def)

lemma io_bind_return [simp]: "io_bind (io_return a) f out = f a out"
  by (simp add: io_bind_def io_return_def)

lemma map_of_dict_set: "map_of (dict_set d k v) = (map_of d)(k \<mapsto> v)"
  by (induction d) auto

lemma set_dict_set: "set (dict_set d k v) \<subseteq> insert (k, v) (set d)"
  by (induction d) (auto split: if_splits)

lemma keys_dict_set: "fst ` set (dict_set d k v) = insert k (fst ` set d)"
  by (simp add: dom_map_of_conv_image_fst [symmetric] map_of_dict_set)

lemma distinct_dict_set: "distinct (map fst d) \<Longrightarrow> distinct (map fst (dict_set d k v))"
proof (induction d)
  case Nil
  then show ?case by simp
next
  case (Cons a d)
  have "fst ` set (dict_set d k v) = insert k (fst ` set d)" by (rule keys_dict_set)
  with Cons show ?case by (cases a) auto
qed

lemma dict_update_Nil [simp]: "dict_update d [] = d"
  by (simp add: dict_update_def)

lemma dict_update_Cons [simp]: "dict_update d ((k, v) # other) = dict_update (dict_set d k v) other"
  by (simp add: dict_update_def)

lemma map_of_dict_update: "map_of (dict_update d other) = map_of d ++ map_of (rev other)"
proof (induction other arbitrary: d)
  case Nil
  then show ?case by simp
next
  case (Cons a other)
  obtain k v where a: "a = (k, v)" by (cases a)
  show ?case
    by (simp add: a Cons map_of_dict_set map_add_def fun_eq_iff split: option.splits)
qed

lemma set_dict_update: "set (dict_update d other) \<subseteq> set d \<union> set other"
proof (induction other arbitrary: d)
  case Nil
  then show ?case by simp
next
  case (Cons a other)
  obtain k v where a: "a = (k, v)" by (cases a)
  have "set (dict_update (dict_set d k v) other) \<subseteq> set (dict_set d k v) \<union> set other"
    by (rule Cons)
  with set_dict_set [of d k v] show ?case by (auto simp: a)
qed

lemma distinct_dict_update: "distinct (map fst d) \<Longrightarrow> distinct (map fst (dict_update d other))"
proof (induction other arbitrary: d)
  case Nil
  then show ?case by simp
next
  case (Cons a other)
  then show ?case by (cases a) (simp add: distinct_dict_set)
qed

lemma read_global_json: "read_global ''json'' = Inl (NameError ''json'')"
  by (simp add: read_global_def module_globals_def)

lemma is_jsonable_False [simp]: "is_jsonable x = False"
  by (simp add: is_jsonable_def read_global_json)

lemma to_json_serializable_loop_eq:
  "to_json_serializable_loop items new_dict =
     dict_update new_dict (map (\<lambda>(k, v). (PyStr (py_str k), PyStr (py_str v))) items)"
  by (induction items new_dict rule: to_json_serializable_loop.induct) simp_all

lemma to_json_serializable_eq:
  "to_json_serializable d = dict_of_items (map (\<lambda>(k, v). (PyStr (py_str k), PyStr (py_str v))) d)"
  by (simp add: to_json_serializable_def to_json_serializable_loop_eq dict_of_items_def)

lemma to_json_serializable_strings:
  "(k, v) \<in> set (to_json_serializable d) \<Longrightarrow> is_str k \<and> is_str v"
  using set_dict_update [of "[]" "map (\<lambda>(k, v). (PyStr (py_str k), PyStr (py_str v))) d"]
  by (auto simp: to_json_serializable_eq dict_of_items_def)

lemma getattr_Inl: "getattr x name = Inl e \<Longrightarrow> e = AttributeError name"
  by (auto simp: getattr_def split: option.splits)

lemma getattr_dir: "name \<in> set (py_dir x) \<Longrightarrow> \<exists>v. getattr x name = Inr v"
proof -
  assume "name \<in> set (py_dir x)"
  then have "name \<in> fst ` set (py_attrs x)" by (simp add: py_dir_def)
  then have "map_of (py_attrs x) name \<noteq> None" by (simp add: map_of_eq_None_iff)
  then show ?thesis by (auto simp: getattr_def)
qed

lemma has_attr_iff: "has_attr x name \<longleftrightarrow> (\<exists>v. getattr x name = Inr v)"
  by (auto simp: has_attr_def split: sum.splits)

lemma get_attributes_loop_total:
  "set names \<subseteq> set (py_dir obj) \<Longrightarrow> \<exists>d'. get_attributes_loop obj names d = Inr d'"
proof (induction names arbitrary: d)
  case Nil
  then show ?case by simp
next
  case (Cons attr rest)
  then obtain v where "getattr obj attr = Inr v" using getattr_dir [of attr obj] by auto
  with Cons show ?case by simp
qed

lemma get_attributes_total: "\<exists>d. get_attributes obj = Inr d"
  by (simp add: get_attributes_def get_attributes_loop_total)

lemma get_attributes_loop_keys:
  "get_attributes_loop obj names d = Inr d' \<Longrightarrow> \<forall>k \<in> fst ` set d. is_str k
     \<Longrightarrow> \<forall>k \<in> fst ` set d'. is_str k"
proof (induction names arbitrary: d)
  case Nil
  then show ?case by simp
next
  case (Cons attr rest)
  from Cons.prems(1) obtain v where v: "getattr obj attr = Inr v"
    by (cases "getattr obj attr") auto
  show ?case
  proof (cases "\<not> callable v \<and> \<not> startswith attr ''__''")
    case True
    with Cons.prems v have "get_attributes_loop obj rest (dict_set d (PyStr attr) v) = Inr d'"
      by simp
    moreover have "\<forall>k \<in> fst ` set (dict_set d (PyStr attr) v). is_str k"
      using Cons.prems(2) by (simp add: keys_dict_set)
    ultimately show ?thesis by (rule Cons.IH)
  next
    case False
    with Cons.prems v have "get_attributes_loop obj rest d = Inr d'" by auto
    then show ?thesis using Cons.prems(2) by (rule Cons.IH)
  qed
qed

lemma get_attributes_loop_distinct:
  "get_attributes_loop obj names d = Inr d' \<Longrightarrow> distinct (map fst d)
     \<Longrightarrow> distinct (map fst d')"
proof (induction names arbitrary: d)
  case Nil
  then show ?case by simp
next
  case (Cons attr rest)
  from Cons.prems(1) obtain v where v: "getattr obj attr = Inr v"
    by (cases "getattr obj attr") auto
  show ?case
  proof (cases "\<not> callable v \<and> \<not> startswith attr ''__''")
    case True
    with Cons.prems v have "get_attributes_loop obj rest (dict_set d (PyStr attr) v) = Inr d'"
      by simp
    moreover have "distinct (map fst (dict_set d (PyStr attr) v))"
      using Cons.prems(2) by (rule distinct_dict_set)
    ultimately show ?thesis by (rule Cons.IH)
  next
    case False
    with Cons.prems v have "get_attributes_loop obj rest d = Inr d'" by auto
    then show ?thesis using Cons.prems(2) by (rule Cons.IH)
  qed
qed

lemma get_attributes_loop_lookup:
  "get_attributes_loop obj names d = Inr d' \<Longrightarrow> getattr obj k = Inr v \<Longrightarrow> \<not> callable v
     \<Longrightarrow> \<not> startswith k ''__'' \<Longrightarrow> k \<in> set names \<or> map_of d (PyStr k) = Some v
     \<Longrightarrow> map_of d' (PyStr k) = Some v"
proof (induction names arbitrary: d)
  case Nil
  then show ?case by simp
next
  case (Cons attr rest)
  from Cons.prems(1) obtain w where w: "getattr obj attr = Inr w"
    by (cases "getattr obj attr") auto
  show ?case
  proof (cases "\<not> callable w \<and> \<not> startswith attr ''__''")
    case True
    with Cons.prems w have loop: "get_attributes_loop obj rest (dict_set d (PyStr attr) w) = Inr d'"
      by simp
    have "k \<in> set rest \<or> map_of (dict_set d (PyStr attr) w) (PyStr k) = Some v"
      using Cons.prems(2,5) w by (auto simp: map_of_dict_set)
    with loop Cons.prems(2,3,4) show ?thesis by (rule Cons.IH)
  next
    case False
    with Cons.prems w have loop: "get_attributes_loop obj rest d = Inr d'" by auto
    have "attr \<noteq> k" using False w Cons.prems(2,3,4) by auto
    with Cons.prems(5) have "k \<in> set rest \<or> map_of d (PyStr k) = Some v" by auto
    with loop Cons.prems(2,3,4) show ?thesis by (rule Cons.IH)
  qed
qed

lemma get_attributes_lookup:
  assumes "get_attributes obj = Inr d" "getattr obj k = Inr v" "\<not> callable v"
    "\<not> startswith k ''__''"
  shows "map_of d (PyStr k) = Some v"
proof -
  have "map_of (py_attrs obj) k \<noteq> None" using assms(2) by (auto simp: getattr_def split: option.splits)
  then have "k \<in> set (py_dir obj)" by (simp add: map_of_eq_None_iff py_dir_def)
  with assms show ?thesis
    using get_attributes_loop_lookup [of obj "py_dir obj" "[]" d k v]
    by (simp add: get_attributes_def)
qed

lemma get_attributes_keys: "get_attributes obj = Inr d \<Longrightarrow> \<forall>k \<in> fst ` set d. is_str k"
  using get_attributes_loop_keys [of obj "py_dir obj" "[]" d] by (simp add: get_attributes_def)

lemma get_attributes_distinct: "get_attributes obj = Inr d \<Longrightarrow> distinct (map fst d)"
  using get_attributes_loop_distinct [of obj "py_dir obj" "[]" d] by (simp add: get_attributes_def)

lemma dict_set_fresh: "k \<notin> fst ` set d \<Longrightarrow> dict_set d k v = d @ [(k, v)]"
  by (induction d) auto

lemma dict_update_distinct:
  "distinct (map fst (d @ other)) \<Longrightarrow> dict_update d other = d @ other"
proof (induction other arbitrary: d)
  case Nil
  then show ?case by simp
next
  case (Cons a other)
  obtain k v where a: "a = (k, v)" by (cases a)
  from Cons.prems have fresh: "k \<notin> fst ` set d" by (auto simp: a)
  from Cons.prems have "distinct (map fst ((d @ [(k, v)]) @ other))" by (simp add: a)
  then have "dict_update (d @ [(k, v)]) other = (d @ [(k, v)]) @ other" by (rule Cons.IH)
  with fresh show ?case by (simp add: a dict_set_fresh)
qed

lemma dict_of_items_distinct: "distinct (map fst d) \<Longrightarrow> dict_of_items d = d"
  using dict_update_distinct [of "[]" d] by (simp add: dict_of_items_def)

lemma map_of_rev_distinct: "distinct (map fst d) \<Longrightarrow> map_of (rev d) = map_of (d :: py_dict)"
  using map_of_dict_update [of "[]" d] dict_update_distinct [of "[]" d] by simp

lemma distinct_dict_of_items: "distinct (map fst (dict_of_items kvs))"
  by (simp add: dict_of_items_def distinct_dict_update)

lemma map_of_dict_update_dict:
  "distinct (map fst other) \<Longrightarrow> map_of (dict_update d other) = map_of d ++ map_of other"
  by (simp add: map_of_dict_update map_of_rev_distinct)

lemma keys_dict_update: "fst ` set (dict_update d other) = fst ` set d \<union> fst ` set other"
proof -
  have "dom (map_of (dict_update d other)) = dom (map_of d) \<union> dom (map_of (rev other))"
    by (auto simp: map_of_dict_update)
  then show ?thesis by (simp add: dom_map_of_conv_image_fst)
qed

lemma format_keys_id:
  assumes "\<forall>k \<in> fst ` set d. is_str k" "distinct (map fst d)"
  shows "format_keys [] d = d"
proof -
  have "map (\<lambda>(key, val). (PyStr ([] @ py_str key), val)) d = map id d"
  proof (rule map_cong [OF refl])
    fix x assume "x \<in> set d"
    with assms(1) have "is_str (fst x)" by auto
    then show "(case x of (key, val) \<Rightarrow> (PyStr ([] @ py_str key), val)) = id x"
      by (cases x; cases "fst x") auto
  qed
  with assms(2) show ?thesis by (simp add: format_keys_def dict_of_items_distinct)
qed

lemma format_keys_keys: "k \<in> fst ` set (format_keys p d) \<Longrightarrow> \<exists>s. k = PyStr (p @ s)"
  by (auto simp: format_keys_def dict_of_items_def keys_dict_update)

lemma format_keys_distinct: "distinct (map fst (format_keys p d))"
  by (simp add: format_keys_def distinct_dict_of_items)

lemma format_keys_no_prefix:
  assumes "\<not> startswith k p"
  shows "map_of (format_keys p d) (PyStr k) = None"
proof -
  have "PyStr k \<notin> fst ` set (format_keys p d)"
  proof
    assume "PyStr k \<in> fst ` set (format_keys p d)"
    then obtain s where "k = p @ s" using format_keys_keys by blast
    with assms show False by (simp add: startswith_def)
  qed
  then show ?thesis by (simp add: map_of_eq_None_iff)
qed

lemma behaviors_loop_Inl: "behaviors_loop bs d = Inl e \<Longrightarrow> e = AttributeError ''hyperparameters''"
proof (induction bs d rule: behaviors_loop.induct)
  case (1 d)
  then show ?case by simp
next
  case (2 n b rest d)
  show ?case
  proof (cases "getattr b ''hyperparameters''")
    case (Inl e')
    with 2 show ?thesis by (auto dest: getattr_Inl)
  next
    case (Inr hp)
    obtain hps where hps: "get_attributes hp = Inr hps" using get_attributes_total by blast
    obtain bd where bd: "get_attributes b = Inr bd" using get_attributes_total by blast
    from 2 Inr hps bd show ?thesis by simp
  qed
qed

lemma behaviors_loop_total_iff:
  "(\<exists>d'. behaviors_loop bs d = Inr d') \<longleftrightarrow> list_all (\<lambda>kv. has_attr (snd kv) ''hyperparameters'') bs"
proof (induction bs d rule: behaviors_loop.induct)
  case (1 d)
  then show ?case by simp
next
  case (2 n b rest d)
  show ?case
  proof (cases "getattr b ''hyperparameters''")
    case (Inl e')
    then show ?thesis by (simp add: has_attr_def)
  next
    case (Inr hp)
    obtain hps where hps: "get_attributes hp = Inr hps" using get_attributes_total by blast
    obtain bd where bd: "get_attributes b = Inr bd" using get_attributes_total by blast
    from 2 Inr hps bd show ?thesis by (simp add: has_attr_def)
  qed
qed

lemma behaviors_loop_append:
  "behaviors_loop (bs @ cs) d = bind_err (behaviors_loop bs d) (behaviors_loop cs)"
proof (induction bs d rule: behaviors_loop.induct)
  case (1 d)
  then show ?case by simp
next
  case (2 n b rest d)
  show ?case
  proof (cases "getattr b ''hyperparameters''")
    case (Inl e')
    then show ?thesis by simp
  next
    case (Inr hp)
    obtain hps where hps: "get_attributes hp = Inr hps" using get_attributes_total by blast
    obtain bd where bd: "get_attributes b = Inr bd" using get_attributes_total by blast
    from 2 Inr hps bd show ?thesis by simp
  qed
qed

lemma behaviors_loop_keys:
  "behaviors_loop bs d = Inr d' \<Longrightarrow> \<forall>k \<in> fst ` set d. is_str k \<Longrightarrow> \<forall>k \<in> fst ` set d'. is_str k"
proof (induction bs d rule: behaviors_loop.induct)
  case (1 d)
  then show ?case by simp
next
  case (2 n b rest d)
  from "2.prems"(1) obtain hp where hp: "getattr b ''hyperparameters'' = Inr hp"
    by (cases "getattr b ''hyperparameters''") auto
  obtain hps where hps: "get_attributes hp = Inr hps" using get_attributes_total by blast
  obtain bd where bd: "get_attributes b = Inr bd" using get_attributes_total by blast
  let ?d = "dict_update (dict_update d (format_keys [] hps)) (format_keys [] bd)"
  have "behaviors_loop rest ?d = Inr d'" using "2.prems"(1) hp hps bd by simp
  moreover have "\<forall>k \<in> fst ` set ?d. is_str k"
    using "2.prems"(2) by (auto simp: keys_dict_update dest!: format_keys_keys)
  ultimately show ?case by (rule "2.IH")
qed

lemma behaviors_loop_distinct:
  "behaviors_loop bs d = Inr d' \<Longrightarrow> distinct (map fst d) \<Longrightarrow> distinct (map fst d')"
proof (induction bs d rule: behaviors_loop.induct)
  case (1 d)
  then show ?case by simp
next
  case (2 n b rest d)
  from "2.prems"(1) obtain hp where hp: "getattr b ''hyperparameters'' = Inr hp"
    by (cases "getattr b ''hyperparameters''") auto
  obtain hps where hps: "get_attributes hp = Inr hps" using get_attributes_total by blast
  obtain bd where bd: "get_attributes b = Inr bd" using get_attributes_total by blast
  let ?d = "dict_update (dict_update d (format_keys [] hps)) (format_keys [] bd)"
  have "behaviors_loop rest ?d = Inr d'" using "2.prems"(1) hp hps bd by simp
  moreover have "distinct (map fst ?d)"
    using "2.prems"(2) by (simp add: distinct_dict_update)
  ultimately show ?case by (rule "2.IH")
qed

lemma settings_loop_Inl: "settings_loop ro names d = Inl e \<Longrightarrow> \<exists>a. e = AttributeError a"
proof (induction names arbitrary: d)
  case Nil
  then show ?case by simp
next
  case (Cons n rest)
  show ?case
  proof (cases "getattr ro n")
    case (Inl e')
    with Cons.prems show ?thesis by (auto dest: getattr_Inl)
  next
    case (Inr st)
    obtain sd where sd: "get_attributes st = Inr sd" using get_attributes_total by blast
    from Cons Inr sd show ?thesis by simp
  qed
qed

lemma settings_loop_total_iff:
  "(\<exists>d'. settings_loop ro names d = Inr d') \<longleftrightarrow> list_all (has_attr ro) names"
proof (induction names arbitrary: d)
  case Nil
  then show ?case by simp
next
  case (Cons n rest)
  show ?case
  proof (cases "getattr ro n")
    case (Inl e')
    then show ?thesis by (simp add: has_attr_def)
  next
    case (Inr st)
    obtain sd where sd: "get_attributes st = Inr sd" using get_attributes_total by blast
    from Cons Inr sd show ?thesis by (simp add: has_attr_def)
  qed
qed

lemma settings_loop_keys:
  "settings_loop ro names d = Inr d' \<Longrightarrow> \<forall>k \<in> fst ` set d. is_str k \<Longrightarrow> \<forall>k \<in> fst ` set d'. is_str k"
proof (induction names arbitrary: d)
  case Nil
  then show ?case by simp
next
  case (Cons n rest)
  from Cons.prems(1) obtain st where st: "getattr ro n = Inr st"
    by (cases "getattr ro n") auto
  obtain sd where sd: "get_attributes st = Inr sd" using get_attributes_total by blast
  let ?d = "dict_update d (format_keys (n @ ''_'') sd)"
  have "settings_loop ro rest ?d = Inr d'" using Cons.prems(1) st sd by simp
  moreover have "\<forall>k \<in> fst ` set ?d. is_str k"
    using Cons.prems(2) by (auto simp: keys_dict_update dest!: format_keys_keys)
  ultimately show ?case by (rule Cons.IH)
qed

lemma settings_loop_distinct:
  "settings_loop ro names d = Inr d' \<Longrightarrow> distinct (map fst d) \<Longrightarrow> distinct (map fst d')"
proof (induction names arbitrary: d)
  case Nil
  then show ?case by simp
next
  case (Cons n rest)
  from Cons.prems(1) obtain st where st: "getattr ro n = Inr st"
    by (cases "getattr ro n") auto
  obtain sd where sd: "get_attributes st = Inr sd" using get_attributes_total by blast
  let ?d = "dict_update d (format_keys (n @ ''_'') sd)"
  have "settings_loop ro rest ?d = Inr d'" using Cons.prems(1) st sd by simp
  moreover have "distinct (map fst ?d)" using Cons.prems(2) by (simp add: distinct_dict_update)
  ultimately show ?case by (rule Cons.IH)
qed

lemma settings_loop_lookup:
  "settings_loop ro names d = Inr d' \<Longrightarrow> \<forall>n \<in> set names. \<not> startswith k (n @ ''_'')
     \<Longrightarrow> map_of d' (PyStr k) = map_of d (PyStr k)"
proof (induction names arbitrary: d)
  case Nil
  then show ?case by simp
next
  case (Cons n rest)
  from Cons.prems(1) obtain st where st: "getattr ro n = Inr st"
    by (cases "getattr ro n") auto
  obtain sd where sd: "get_attributes st = Inr sd" using get_attributes_total by blast
  let ?d = "dict_update d (format_keys (n @ ''_'') sd)"
  have loop: "settings_loop ro rest ?d = Inr d'" using Cons.prems(1) st sd by simp
  have "map_of d' (PyStr k) = map_of ?d (PyStr k)" using loop Cons.prems(2) by (auto intro: Cons.IH)
  also have "\<dots> = map_of d (PyStr k)"
    using Cons.prems(2)
    by (simp add: map_of_dict_update_dict format_keys_distinct format_keys_no_prefix map_add_def)
  finally show ?case .
qed

subsection \<open>The extraction and the default sinks\<close>

lemma py_items_Inl: "py_items x = Inl e \<Longrightarrow> e = AttributeError ''items''"
  by (cases x) auto

lemma py_items_Inr: "py_items x = Inr kvs \<Longrightarrow> x = PyDict kvs"
  by (cases x) auto

lemma extract_data_Inl: "extract_data ro = Inl e \<Longrightarrow> \<exists>a. e = AttributeError a"
proof (cases "getattr ro ''behaviors''")
  case (Inl e')
  assume "extract_data ro = Inl e"
  with Inl show ?thesis by (auto simp: extract_data_def dest: getattr_Inl)
next
  case b: (Inr b)
  assume e: "extract_data ro = Inl e"
  show ?thesis
  proof (cases "py_items b")
    case (Inl e')
    with b e show ?thesis by (auto simp: extract_data_def dest: py_items_Inl)
  next
    case kvs: (Inr kvs)
    show ?thesis
    proof (cases "behaviors_loop kvs []")
      case (Inl e')
      with b kvs e show ?thesis by (auto simp: extract_data_def dest: behaviors_loop_Inl)
    next
      case (Inr d)
      with b kvs e show ?thesis by (auto simp: extract_data_def dest: settings_loop_Inl)
    qed
  qed
qed

lemma extract_data_Inr_iff:
  "(\<exists>d. extract_data ro = Inr d) \<longleftrightarrow>
     (case getattr ro ''behaviors'' of
        Inr (PyDict kvs) \<Rightarrow> list_all (\<lambda>kv. has_attr (snd kv) ''hyperparameters'') kvs
      | _ \<Rightarrow> False) \<and> list_all (has_attr ro) settings_list"
proof (cases "getattr ro ''behaviors''")
  case (Inl e')
  then show ?thesis by (simp add: extract_data_def)
next
  case b: (Inr b)
  show ?thesis
  proof (cases "\<exists>kvs. b = PyDict kvs")
    case False
    then have "\<exists>e. py_items b = Inl e" by (cases b) auto
    with b False show ?thesis by (cases b) (auto simp: extract_data_def)
  next
    case True
    then obtain kvs where kvs: "b = PyDict kvs" by blast
    show ?thesis
    proof (cases "behaviors_loop kvs []")
      case (Inl e')
      then have "\<not> list_all (\<lambda>kv. has_attr (snd kv) ''hyperparameters'') kvs"
        using behaviors_loop_total_iff [of kvs "[]"] by simp
      with b kvs Inl show ?thesis by (simp add: extract_data_def)
    next
      case (Inr d)
      then have "list_all (\<lambda>kv. has_attr (snd kv) ''hyperparameters'') kvs"
        using behaviors_loop_total_iff [of kvs "[]"] by simp
      with b kvs Inr show ?thesis
        using settings_loop_total_iff [of ro settings_list d] by (simp add: extract_data_def)
    qed
  qed
qed

lemma extract_data_keys:
  assumes "extract_data ro = Inr d"
  shows "\<forall>k \<in> fst ` set d. is_str k" and "distinct (map fst d)"
proof -
  from assms obtain b where b: "getattr ro ''behaviors'' = Inr b"
    by (cases "getattr ro ''behaviors''") (auto simp: extract_data_def)
  from assms b obtain kvs where kvs: "py_items b = Inr kvs"
    by (cases "py_items b") (auto simp: extract_data_def)
  from assms b kvs obtain d0 where d0: "behaviors_loop kvs [] = Inr d0"
    by (cases "behaviors_loop kvs []") (auto simp: extract_data_def)
  from assms b kvs d0 have d: "settings_loop ro settings_list d0 = Inr d"
    by (simp add: extract_data_def)
  have "\<forall>k \<in> fst ` set d0. is_str k" using behaviors_loop_keys [OF d0] by simp
  then show "\<forall>k \<in> fst ` set d. is_str k" by (rule settings_loop_keys [OF d])
  have "distinct (map fst d0)" using behaviors_loop_distinct [OF d0] by simp
  then show "distinct (map fst d)" by (rule settings_loop_distinct [OF d])
qed

lemma get_default_stats_writers_success:
  assumes "getattr ro ''checkpoint_settings'' = Inr cs"
    and "getattr ro ''behaviors'' = Inr b"
    and "getattr ro ''engine_settings'' = Inr es"
    and "getattr ro ''environment_parameters'' = Inr ep"
    and "getattr ro ''env_settings'' = Inr ev"
    and "getattr ro ''torch_settings'' = Inr ts"
    and "extract_data ro = Inr d"
    and "getattr cs ''write_path'' = Inr wp"
    and "getattr cs ''resume'' = Inr r"
  shows "get_default_stats_writers ro out =
     (Inr [TensorboardWriter wp (\<not> py_truthy r) [''Is Training'', ''Step''],
           GaugeWriter, ConsoleWriter, WandbWriter (to_json_serializable d)],
      out @ printed b cs es ep ev ts d)"
  by (simp add: get_default_stats_writers_def print_attr_def assms io_bind_def io_lift_def emit_def
      io_return_def printed_def)

lemma get_default_stats_writers_Inr:
  assumes "get_default_stats_writers ro out = (Inr ws, out')"
  shows "\<exists>cs d wp r. getattr ro ''checkpoint_settings'' = Inr cs \<and> extract_data ro = Inr d \<and>
     getattr cs ''write_path'' = Inr wp \<and> getattr cs ''resume'' = Inr r \<and>
     has_attr ro ''behaviors'' \<and> has_attr ro ''engine_settings'' \<and>
     has_attr ro ''environment_parameters'' \<and> has_attr ro ''env_settings'' \<and>
     has_attr ro ''torch_settings'' \<and>
     ws = [TensorboardWriter wp (\<not> py_truthy r) [''Is Training'', ''Step''],
           GaugeWriter, ConsoleWriter, WandbWriter (to_json_serializable d)]"
  using assms
  by (auto simp: get_default_stats_writers_def print_attr_def io_bind_def io_lift_def emit_def
      io_return_def has_attr_def split: sum.splits)

lemma get_default_stats_writers_Inl:
  assumes "get_default_stats_writers ro out = (Inl e, out')"
  shows "\<exists>a. e = AttributeError a"
  using assms
  by (auto simp: get_default_stats_writers_def print_attr_def io_bind_def io_lift_def emit_def
      io_return_def split: sum.splits dest: getattr_Inl extract_data_Inl)

subsection \<open>Fully populated run options\<close>

lemma fully_populated_success:
  assumes "fully_populated ro"
  shows "\<exists>cs b es ep ev ts d wp r.
     getattr ro ''checkpoint_settings'' = Inr cs \<and> getattr cs ''write_path'' = Inr wp \<and>
     getattr cs ''resume'' = Inr r \<and> extract_data ro = Inr d \<and>
     (\<forall>out. get_default_stats_writers ro out =
       (Inr [TensorboardWriter wp (\<not> py_truthy r) [''Is Training'', ''Step''],
             GaugeWriter, ConsoleWriter, WandbWriter (to_json_serializable d)],
        out @ printed b cs es ep ev ts d))"
proof -
  from assms obtain cs b es ep ev ts where
    a: "getattr ro ''checkpoint_settings'' = Inr cs" "getattr ro ''behaviors'' = Inr b"
       "getattr ro ''engine_settings'' = Inr es" "getattr ro ''environment_parameters'' = Inr ep"
       "getattr ro ''env_settings'' = Inr ev" "getattr ro ''torch_settings'' = Inr ts"
    unfolding fully_populated_def has_attr_iff by blast
  from assms a(1) obtain wp r where
    c: "getattr cs ''write_path'' = Inr wp" "getattr cs ''resume'' = Inr r"
    unfolding fully_populated_def has_attr_iff by auto
  have "list_all (has_attr ro) settings_list"
    using a by (simp add: settings_list_def has_attr_iff)
  moreover have "case getattr ro ''behaviors'' of
        Inr (PyDict kvs) \<Rightarrow> list_all (\<lambda>kv. has_attr (snd kv) ''hyperparameters'') kvs
      | _ \<Rightarrow> False"
    using assms by (simp add: fully_populated_def)
  ultimately obtain d where d: "extract_data ro = Inr d"
    using extract_data_Inr_iff [of ro] by blast
  show ?thesis
    using get_default_stats_writers_success [OF a d c] a(1) c d by blast
qed

lemma success_fully_populated:
  assumes "get_default_stats_writers ro out = (Inr ws, out')"
  shows "fully_populated ro"
proof -
  from get_default_stats_writers_Inr [OF assms] obtain cs d wp r where
    h: "getattr ro ''checkpoint_settings'' = Inr cs" "extract_data ro = Inr d"
       "getattr cs ''write_path'' = Inr wp" "getattr cs ''resume'' = Inr r"
       "has_attr ro ''behaviors''" "has_attr ro ''engine_settings''"
       "has_attr ro ''environment_parameters''" "has_attr ro ''env_settings''"
       "has_attr ro ''torch_settings''"
    by blast
  from h(2) have "case getattr ro ''behaviors'' of
        Inr (PyDict kvs) \<Rightarrow> list_all (\<lambda>kv. has_attr (snd kv) ''hyperparameters'') kvs
      | _ \<Rightarrow> False"
    using extract_data_Inr_iff [of ro] by blast
  with h show ?thesis by (simp add: fully_populated_def has_attr_def)
qed

lemma not_fully_populated_raises:
  assumes "\<not> fully_populated ro"
  shows "\<exists>a out'. get_default_stats_writers ro out = (Inl (AttributeError a), out')"
proof (cases "get_default_stats_writers ro out")
  case (Pair r out')
  show ?thesis
  proof (cases r)
    case (Inl e)
    with Pair get_default_stats_writers_Inl [of ro out e out'] show ?thesis by auto
  next
    case (Inr ws)
    with Pair assms success_fully_populated show ?thesis by blast
  qed
qed

subsection \<open>The plugin loop\<close>

lemma try_plugin_load_fails:
  assumes "ep_load ep = Inl e"
  shows "try_plugin ep ro ws out =
     (Inr ws, out @ [LogDebug (initializing_message ep),
                     LogException (error_message ep) e])"
  by (simp add: try_plugin_def try_body_def assms)

lemma try_plugin_call_fails:
  assumes "ep_load ep = Inr f"
    and "f ro (out @ [LogDebug (initializing_message ep)]) = (Inl e, out1)"
  shows "try_plugin ep ro ws out = (Inr ws, out1 @ [LogException (error_message ep) e])"
  by (simp add: try_plugin_def try_body_def assms io_bind_def emit_def io_lift_def)

lemma try_plugin_returns:
  assumes "ep_load ep = Inr f"
    and "f ro (out @ [LogDebug (initializing_message ep)])
           = (Inr (Sinks sinks), out1)"
  shows "try_plugin ep ro ws out =
     (Inr (ws @ sinks),
      out1 @ [LogDebug (found_message (length sinks) ep)])"
  by (simp add: try_plugin_def try_body_def assms io_bind_def emit_def io_lift_def io_return_def)

lemma try_plugin_Inr: "\<exists>ws' out'. try_plugin ep ro ws out = (Inr ws', out')"
proof (cases "try_body ep ro ws out")
  case (Pair r out')
  then show ?thesis by (cases r) (simp_all add: try_plugin_def)
qed

lemma plugins_loop_Inr: "\<exists>ws' out'. plugins_loop eps ro ws out = (Inr ws', out')"
proof (induction eps arbitrary: ws out)
  case Nil
  then show ?case by simp
next
  case (Cons ep rest)
  obtain ws1 out1 where "try_plugin ep ro ws out = (Inr ws1, out1)"
    using try_plugin_Inr by blast
  with Cons [of ws1 out1] show ?case by simp
qed

lemma plugins_loop_append:
  "plugins_loop pre ro ws out = (Inr ws1, out1)
     \<Longrightarrow> plugins_loop (pre @ post) ro ws out = plugins_loop post ro ws1 out1"
proof (induction pre arbitrary: ws out)
  case Nil
  then show ?case by simp
next
  case (Cons ep rest)
  obtain ws2 out2 where t: "try_plugin ep ro ws out = (Inr ws2, out2)"
    using try_plugin_Inr by blast
  with Cons.prems have "plugins_loop rest ro ws2 out2 = (Inr ws1, out1)" by simp
  then have "plugins_loop (rest @ post) ro ws2 out2 = plugins_loop post ro ws1 out1"
    by (rule Cons.IH)
  with t show ?case by simp
qed

lemma try_plugin_extends: "try_plugin ep ro ws out = (Inr ws', out') \<Longrightarrow> \<exists>more. ws' = ws @ more"
  by (auto simp: try_plugin_def try_body_def io_bind_def io_lift_def io_return_def emit_def
      split: sum.splits prod.splits)

lemma plugins_loop_extends:
  "plugins_loop eps ro ws out = (Inr ws', out') \<Longrightarrow> \<exists>more. ws' = ws @ more"
proof (induction eps arbitrary: ws out)
  case Nil
  then show ?case by simp
next
  case (Cons ep rest)
  obtain ws1 out1 where t: "try_plugin ep ro ws out = (Inr ws1, out1)"
    using try_plugin_Inr by blast
  with Cons.prems have "plugins_loop rest ro ws1 out1 = (Inr ws', out')" by simp
  then obtain more where "ws' = ws1 @ more" using Cons.IH by blast
  moreover obtain more1 where "ws1 = ws @ more1" using try_plugin_extends [OF t] by blast
  ultimately show ?case by simp
qed

lemma plugins_loop_well_behaved:
  assumes "\<forall>ep \<in> set eps. \<exists>f. ep_load ep = Inr f \<and> (\<forall>out. \<exists>out'. f ro out = (Inr (Sinks (k ep)), out'))"
  shows "fst (plugins_loop eps ro ws out) = Inr (ws @ concat (map k eps))"
  using assms
proof (induction eps arbitrary: ws out)
  case Nil
  then show ?case by simp
next
  case (Cons ep rest)
  from Cons.prems obtain f where f: "ep_load ep = Inr f"
    and r: "\<forall>out. \<exists>out'. f ro out = (Inr (Sinks (k ep)), out')" by auto
  from r obtain out1 where
    "f ro (out @ [LogDebug (initializing_message ep)])
       = (Inr (Sinks (k ep)), out1)" by blast
  from try_plugin_returns [OF f this]
  obtain out2 where t: "try_plugin ep ro ws out = (Inr (ws @ k ep), out2)" by blast
  have "fst (plugins_loop rest ro (ws @ k ep) out2) = Inr ((ws @ k ep) @ concat (map k rest))"
    using Cons.prems by (intro Cons.IH) simp
  with t show ?case by simp
qed

lemma plugins_loop_contains:
  assumes "ep \<in> set eps" and "ep_load ep = Inr f"
    and "\<forall>out. \<exists>out'. f ro out = (Inr (Sinks sinks), out')"
    and "plugins_loop eps ro ws out = (Inr ws', out')"
  shows "set sinks \<subseteq> set ws'"
  using assms(1,4)
proof (induction eps arbitrary: ws out)
  case Nil
  then show ?case by simp
next
  case (Cons a rest)
  obtain ws1 out1 where t: "try_plugin a ro ws out = (Inr ws1, out1)"
    using try_plugin_Inr by blast
  with Cons.prems(2) have loop: "plugins_loop rest ro ws1 out1 = (Inr ws', out')" by simp
  show ?case
  proof (cases "a = ep")
    case True
    from assms(3) obtain o1 where
      "f ro (out @ [LogDebug (initializing_message ep)])
         = (Inr (Sinks sinks), o1)" by blast
    from try_plugin_returns [OF assms(2) this, of ws] t True have "ws1 = ws @ sinks" by simp
    moreover obtain more where "ws' = ws1 @ more" using plugins_loop_extends [OF loop] by blast
    ultimately show ?thesis by auto
  next
    case False
    with Cons.prems(1) have "ep \<in> set rest" by simp
    then show ?thesis using loop by (rule Cons.IH)
  qed
qed

subsection \<open>The sample run\<close>

lemma sample_extract_data: "extract_data sample_run_options = Inr sample_extracted"
  by code_simp


lemma sample_to_json_serializable: "to_json_serializable sample_extracted = sample_config"
  by (simp add: to_json_serializable_eq sample_extracted_def sample_config_def dict_of_items_def
      sample_hyperparameters_def int_str_def nat_digits.simps digit_char_def)


lemma sample_sinks_eq:
  "get_default_stats_writers sample_run_options out =
     (Inr sample_sinks,
      out @ printed (PyDict [(PyStr ''3DBall'', sample_behavior)]) sample_checkpoint_settings
              (PyObj ''EngineSettings()'' ''EngineSettings()'' [(''time_scale'', PyInt 20)])
              PyNone
              (PyObj ''EnvironmentSettings()'' ''EnvironmentSettings()''
                 [(''env_path'', PyNone), (''num_envs'', PyInt 1)])
              (PyObj ''TorchSettings()'' ''TorchSettings()'' [(''device'', PyNone)])
              sample_extracted)"
proof -
  have a: "getattr sample_run_options ''checkpoint_settings'' = Inr sample_checkpoint_settings"
    by (simp add: getattr_def sample_run_options_def)
  have b: "getattr sample_run_options ''behaviors'' = Inr (PyDict [(PyStr ''3DBall'', sample_behavior)])"
    by (simp add: getattr_def sample_run_options_def)
  have c: "getattr sample_run_options ''engine_settings'' =
      Inr (PyObj ''EngineSettings()'' ''EngineSettings()'' [(''time_scale'', PyInt 20)])"
    by (simp add: getattr_def sample_run_options_def)
  have d: "getattr sample_run_options ''environment_parameters'' = Inr PyNone"
    by (simp add: getattr_def sample_run_options_def)
  have e: "getattr sample_run_options ''env_settings'' =
      Inr (PyObj ''EnvironmentSettings()'' ''EnvironmentSettings()''
                 [(''env_path'', PyNone), (''num_envs'', PyInt 1)])"
    by (simp add: getattr_def sample_run_options_def)
  have f: "getattr sample_run_options ''torch_settings'' =
      Inr (PyObj ''TorchSettings()'' ''TorchSettings()'' [(''device'', PyNone)])"
    by (simp add: getattr_def sample_run_options_def)
  have g: "getattr sample_checkpoint_settings ''write_path'' = Inr (PyStr ''results/ball'')"
    by (simp add: getattr_def sample_checkpoint_settings_def)
  have h: "getattr sample_checkpoint_settings ''resume'' = Inr (PyBool True)"
    by (simp add: getattr_def sample_checkpoint_settings_def)
  show ?thesis
    unfolding get_default_stats_writers_success [OF a b c d e f sample_extract_data g h]
      sample_to_json_serializable sample_sinks_def
    by simp
qed

lemma sample_fully_populated: "fully_populated sample_run_options"
  by (simp add: fully_populated_def has_attr_def getattr_def sample_run_options_def
      sample_behavior_def sample_checkpoint_settings_def)

subsection \<open>Strings pass the JSON encoder\<close>

lemma is_str_round_trip: "is_str x \<Longrightarrow> \<exists>j. json_dumps x = Inr j \<and> json_loads j = x"
  by (cases x) auto

lemma sequence_err_strings:
  "\<forall>(k, v) \<in> set c. is_str k \<and> is_str v \<Longrightarrow>
   sequence_err (map (\<lambda>kv. bind_err (json_key (fst kv))
                        (\<lambda>k. bind_err (json_dumps (snd kv)) (\<lambda>j. Inr (k, j)))) c)
     = Inr (map (\<lambda>kv. (py_str (fst kv), JString (py_str (snd kv)))) c)"
proof (induction c)
  case Nil
  then show ?case by simp
next
  case (Cons a c)
  obtain k v where a: "a = (k, v)" by (cases a)
  from Cons.prems a obtain s t where "k = PyStr s" "v = PyStr t"
    by (cases k; cases v) auto
  with Cons a show ?case by simp
qed

lemma string_dict_round_trip:
  assumes "\<forall>(k, v) \<in> set c. is_str k \<and> is_str v" and "distinct (map fst c)"
  shows "\<exists>j. json_dumps (PyDict c) = Inr j \<and> json_loads j = PyDict c"
proof -
  let ?kjs = "map (\<lambda>kv. (py_str (fst kv), JString (py_str (snd kv)))) c"
  have "json_dumps (PyDict c) = Inr (JObject ?kjs)"
    by (simp add: sequence_err_strings [OF assms(1)])
  moreover have "map (\<lambda>kj. (PyStr (fst kj), json_loads (snd kj))) ?kjs = map id c"
    unfolding map_map
  proof (rule map_cong [OF refl])
    fix x assume "x \<in> set c"
    with assms(1) obtain s t where "x = (PyStr s, PyStr t)"
      by (cases x; cases "fst x"; cases "snd x") auto
    then show "((\<lambda>kj. (PyStr (fst kj), json_loads (snd kj))) \<circ>
                (\<lambda>kv. (py_str (fst kv), JString (py_str (snd kv))))) x = id x"
      by simp
  qed
  ultimately show ?thesis using assms(2) by (simp add: dict_of_items_distinct)
qed

lemma to_json_serializable_distinct: "distinct (map fst (to_json_serializable d))"
  by (simp add: to_json_serializable_eq distinct_dict_of_items)

lemma default_plugin_sample:
  "\<exists>out'. default_plugin sample_run_options out = (Inr (Sinks sample_sinks), out')"
  by (simp add: default_plugin_def io_bind_def io_return_def sample_sinks_eq)

lemma raising_then_csv:
  "register_stats_writer_plugins ''mlagents.stats_writer''
     [''mlagents.stats_writer'' \<mapsto> [raising_entry_point, csv_entry_point, unloadable_entry_point]]
     run_options [] =
   (Inr [PluginWriter ''CsvWriter''],
    [LogDebug (initializing_message raising_entry_point),
     LogException (error_message raising_entry_point) (OtherError ''RuntimeError''),
     LogDebug (initializing_message csv_entry_point),
     LogDebug (found_message 1 csv_entry_point),
     LogDebug (initializing_message unloadable_entry_point),
     LogException (error_message unloadable_entry_point) (OtherError ''ModuleNotFoundError'')])"
  by (simp add: register_stats_writer_plugins_def try_plugin_def try_body_def io_bind_def
      io_lift_def io_return_def emit_def raising_entry_point_def csv_entry_point_def
      unloadable_entry_point_def)

lemma broken_not_fully_populated: "\<not> fully_populated broken_run_options"
  by (simp add: fully_populated_def has_attr_def getattr_def broken_run_options_def)

lemma broken_raises:
  "fst (get_default_stats_writers broken_run_options out) = Inl (AttributeError ''hyperparameters'')"
proof -
  have "extract_data broken_run_options = Inl (AttributeError ''hyperparameters'')"
    by (simp add: extract_data_def getattr_def broken_run_options_def)
  then show ?thesis
    by (simp add: get_default_stats_writers_def print_attr_def io_bind_def io_lift_def emit_def
        getattr_def broken_run_options_def)
qed

subsection \<open>Looking a key up after the loops\<close>

lemma get_attributes_format_keys:
  "get_attributes obj = Inr d \<Longrightarrow> format_keys [] d = d"
  by (simp add: format_keys_id get_attributes_keys get_attributes_distinct)

lemma behavior_step_lookup:
  assumes "get_attributes behavior_settings = Inr behavior_data"
    and "getattr behavior_settings key = Inr v" and "\<not> callable v"
    and "\<not> startswith key ''__''"
  shows "map_of (dict_update d (format_keys [] behavior_data)) (PyStr key) = Some v"
proof -
  have "map_of behavior_data (PyStr key) = Some v"
    using assms by (rule get_attributes_lookup)
  then show ?thesis
    using get_attributes_distinct [OF assms(1)]
    by (simp add: get_attributes_format_keys [OF assms(1)] map_of_dict_update_dict)
qed

lemma to_json_serializable_lookup:
  assumes "\<forall>k \<in> fst ` set d. is_str k" and "distinct (map fst d)"
    and "map_of d (PyStr key) = Some v"
  shows "map_of (to_json_serializable d) (PyStr key) = Some (PyStr (py_str v))"
proof -
  let ?d2 = "map (\<lambda>(k, v). (k, PyStr (py_str v))) d"
  have eq: "map (\<lambda>(k, v). (PyStr (py_str k), PyStr (py_str v))) d = ?d2"
  proof (rule map_cong [OF refl])
    fix x assume "x \<in> set d"
    with assms(1) have "is_str (fst x)" by auto
    then show "(case x of (k, v) \<Rightarrow> (PyStr (py_str k), PyStr (py_str v))) =
               (case x of (k, v) \<Rightarrow> (k, PyStr (py_str v)))"
      by (cases x; cases "fst x") auto
  qed
  have fst_eq: "map fst ?d2 = map fst d" by (induction d) auto
  have "distinct (map fst ?d2)" unfolding fst_eq by (rule assms(2))
  then have "dict_of_items ?d2 = ?d2" by (rule dict_of_items_distinct)
  then have "to_json_serializable d = ?d2"
    unfolding to_json_serializable_eq eq .
  then show ?thesis using assms(3) by (simp add: map_of_map)
qed

lemma extract_data_last_behavior:
  assumes "getattr run_options ''behaviors'' = Inr (PyDict (earlier @ [(name, behavior_settings)]))"
    and "extract_data run_options = Inr d"
    and "getattr behavior_settings key = Inr v" and "\<not> callable v"
    and "\<not> startswith key ''__''"
    and "\<forall>s \<in> set settings_list. \<not> startswith key (s @ ''_'')"
  shows "map_of d (PyStr key) = Some v"
proof -
  from assms(1,2) obtain d1 where
    d1: "behaviors_loop (earlier @ [(name, behavior_settings)]) [] = Inr d1"
    and d: "settings_loop run_options settings_list d1 = Inr d"
    by (cases "behaviors_loop (earlier @ [(name, behavior_settings)]) []")
       (auto simp: extract_data_def)
  from d1 obtain d0 where d0: "behaviors_loop earlier [] = Inr d0"
    and last: "behaviors_loop [(name, behavior_settings)] d0 = Inr d1"
    by (cases "behaviors_loop earlier []") (auto simp: behaviors_loop_append)
  from last obtain hp where hp: "getattr behavior_settings ''hyperparameters'' = Inr hp"
    by (cases "getattr behavior_settings ''hyperparameters''") auto
  obtain hps where hps: "get_attributes hp = Inr hps" using get_attributes_total by blast
  obtain bd where bd: "get_attributes behavior_settings = Inr bd"
    using get_attributes_total by blast
  from last hp hps bd have "d1 = dict_update (dict_update d0 (format_keys [] hps)) (format_keys [] bd)"
    by simp
  then have "map_of d1 (PyStr key) = Some v"
    using behavior_step_lookup [OF bd assms(3,4,5)] by simp
  then show ?thesis using settings_loop_lookup [OF d assms(6)] by simp
qed

lemma colliding_fully_populated: "fully_populated colliding_run_options"
  by (simp add: fully_populated_def has_attr_def getattr_def colliding_run_options_def
      sample_behavior_def colliding_behavior_def sample_checkpoint_settings_def)

section \<open>Properties of the module\<close>

text \<open>
  C1. When the stats-writer key is not among the entry-point keys of the host registry,
  \<open>register_stats_writer_plugins\<close> logs a warning and returns exactly the four default
  sinks in the order tensorboard, gauge, console, experiment tracker: the result is the
  one \<open>get_default_stats_writers\<close> gives. The run options are fully populated, as
  their type promises.
\<close>

theorem C1_absent_key_gives_the_four_defaults:
  assumes "fully_populated run_options"
    and "entry_points stats_writer_key = None"
  shows "\<exists>write_path clear_past_data config printed_lines.
     register_stats_writer_plugins stats_writer_key entry_points run_options out =
       (Inr [TensorboardWriter write_path clear_past_data [''Is Training'', ''Step''],
             GaugeWriter, ConsoleWriter, WandbWriter config],
        out @ LogWarning (warning_message stats_writer_key) # printed_lines)
     \<and> fst (register_stats_writer_plugins stats_writer_key entry_points run_options out) =
         fst (get_default_stats_writers run_options out)"
proof -
  from fully_populated_success [OF assms(1)] obtain cs b es ep ev ts d wp r where
    g: "\<forall>out. get_default_stats_writers run_options out =
       (Inr [TensorboardWriter wp (\<not> py_truthy r) [''Is Training'', ''Step''],
             GaugeWriter, ConsoleWriter, WandbWriter (to_json_serializable d)],
        out @ printed b cs es ep ev ts d)"
    by blast
  have "register_stats_writer_plugins stats_writer_key entry_points run_options out =
      get_default_stats_writers run_options (out @ [LogWarning (warning_message stats_writer_key)])"
    by (simp add: register_stats_writer_plugins_def assms(2))
  with g show ?thesis by simp
qed

theorem C1_absent_key_gives_the_four_defaults_witness:
  "fully_populated sample_run_options \<and>
   (Map.empty :: string \<rightharpoonup> entry_point list) ''mlagents.stats_writer'' = None \<and>
   (\<exists>write_path clear_past_data config printed_lines.
     register_stats_writer_plugins ''mlagents.stats_writer'' Map.empty sample_run_options [] =
       (Inr [TensorboardWriter write_path clear_past_data [''Is Training'', ''Step''],
             GaugeWriter, ConsoleWriter, WandbWriter config],
        [] @ LogWarning (warning_message ''mlagents.stats_writer'') # printed_lines)
     \<and> fst (register_stats_writer_plugins ''mlagents.stats_writer'' Map.empty sample_run_options []) =
         fst (get_default_stats_writers sample_run_options []))"
proof -
  have e: "(Map.empty :: string \<rightharpoonup> entry_point list) ''mlagents.stats_writer'' = None" by simp
  have "\<exists>write_path clear_past_data config printed_lines.
     register_stats_writer_plugins ''mlagents.stats_writer'' Map.empty sample_run_options [] =
       (Inr [TensorboardWriter write_path clear_past_data [''Is Training'', ''Step''],
             GaugeWriter, ConsoleWriter, WandbWriter config],
        [] @ LogWarning (warning_message ''mlagents.stats_writer'') # printed_lines)
     \<and> fst (register_stats_writer_plugins ''mlagents.stats_writer'' Map.empty sample_run_options []) =
         fst (get_default_stats_writers sample_run_options [])"
    by (rule C1_absent_key_gives_the_four_defaults [OF sample_fully_populated e])
  with sample_fully_populated e show ?thesis by (intro conjI)
qed

text \<open>
  C2. When the key is present and every registered entry point loads and its function
  returns a list of sinks, \<open>register_stats_writer_plugins\<close> returns the concatenation of
  these lists in the order of the entry points, with nothing put in front: its length
  is the sum of the lengths. When one of the entry points is the package's own, that
  one contributes the four default sinks, so the length is four plus the sum over the
  others.
\<close>

theorem C2_result_is_the_concatenation_of_the_plugin_sinks:
  assumes "entry_points stats_writer_key = Some eps"
    and "\<forall>ep \<in> set eps. \<exists>plugin_func. ep_load ep = Inr plugin_func \<and>
           (\<forall>out. \<exists>out'. plugin_func run_options out = (Inr (Sinks (k ep)), out'))"
  shows "fst (register_stats_writer_plugins stats_writer_key entry_points run_options out) =
           Inr (concat (map k eps)) \<and>
         length (concat (map k eps)) = sum_list (map (\<lambda>ep. length (k ep)) eps) \<and>
         (\<forall>pre d post. eps = pre @ d # post \<and> ep_load d = Inr default_plugin \<longrightarrow>
            length (concat (map k eps)) = 4 + sum_list (map (\<lambda>ep. length (k ep)) (pre @ post)))"
proof (intro conjI allI impI)
  show "fst (register_stats_writer_plugins stats_writer_key entry_points run_options out) =
           Inr (concat (map k eps))"
    using plugins_loop_well_behaved [OF assms(2), of "[]" out]
    by (simp add: register_stats_writer_plugins_def assms(1))
  show len: "length (concat (map k eps)) = sum_list (map (\<lambda>ep. length (k ep)) eps)"
    by (simp add: length_concat comp_def)
  fix pre d post
  assume a: "eps = pre @ d # post \<and> ep_load d = Inr default_plugin"
  then have "d \<in> set eps" by simp
  with assms(2) a obtain out' where "default_plugin run_options [] = (Inr (Sinks (k d)), out')"
    by fastforce
  then have "\<exists>o'. get_default_stats_writers run_options [] = (Inr (k d), o')"
    by (auto simp: default_plugin_def io_bind_def io_return_def split: sum.splits prod.splits)
  then have "length (k d) = 4"
    using get_default_stats_writers_Inr [of run_options "[]" "k d"] by auto
  with a len show "length (concat (map k eps)) = 4 + sum_list (map (\<lambda>ep. length (k ep)) (pre @ post))"
    by simp
qed

theorem C2_result_is_the_concatenation_of_the_plugin_sinks_witness:
  "[''mlagents.stats_writer'' \<mapsto> [default_entry_point, csv_entry_point]] ''mlagents.stats_writer''
     = Some [default_entry_point, csv_entry_point] \<and>
   fst (register_stats_writer_plugins ''mlagents.stats_writer''
          [''mlagents.stats_writer'' \<mapsto> [default_entry_point, csv_entry_point]]
          sample_run_options []) = Inr (sample_sinks @ [PluginWriter ''CsvWriter'']) \<and>
   length (sample_sinks @ [PluginWriter ''CsvWriter'']) = 4 + 1"
proof -
  let ?k = "\<lambda>ep. if ep_name ep = ''default'' then sample_sinks else [PluginWriter ''CsvWriter'']"
  let ?eps = "[default_entry_point, csv_entry_point]"
  have 1: "[''mlagents.stats_writer'' \<mapsto> ?eps] ''mlagents.stats_writer'' = Some ?eps" by simp
  have 2: "\<forall>ep \<in> set ?eps. \<exists>plugin_func. ep_load ep = Inr plugin_func \<and>
           (\<forall>out. \<exists>out'. plugin_func sample_run_options out = (Inr (Sinks (?k ep)), out'))"
    using default_plugin_sample
    by (simp add: default_entry_point_def csv_entry_point_def io_return_def)
  note c2 = C2_result_is_the_concatenation_of_the_plugin_sinks
    [where entry_points = "[''mlagents.stats_writer'' \<mapsto> ?eps]"
       and stats_writer_key = "''mlagents.stats_writer''" and eps = "?eps"
       and run_options = sample_run_options and k = "?k" and out = "[]", OF 1 2]
  have k: "concat (map ?k ?eps) = sample_sinks @ [PluginWriter ''CsvWriter'']"
    by (simp add: default_entry_point_def csv_entry_point_def)
  have 3: "fst (register_stats_writer_plugins ''mlagents.stats_writer''
          [''mlagents.stats_writer'' \<mapsto> ?eps] sample_run_options [])
        = Inr (sample_sinks @ [PluginWriter ''CsvWriter''])"
    using c2 unfolding k by blast
  have "?eps = [] @ default_entry_point # [csv_entry_point] \<and>
        ep_load default_entry_point = Inr default_plugin"
    by (simp add: default_entry_point_def)
  with c2 have "length (concat (map ?k ?eps)) =
      4 + sum_list (map (\<lambda>ep. length (?k ep)) ([] @ [csv_entry_point]))"
    by blast
  then have 4: "length (sample_sinks @ [PluginWriter ''CsvWriter'']) = 4 + 1"
    unfolding k by (simp add: csv_entry_point_def)
  from 1 3 4 show ?thesis by (intro conjI)
qed

text \<open>
  C3. With the key present, \<open>register_stats_writer_plugins\<close> never raises. An entry
  point whose \<open>load\<close> or whose plugin function raises leaves the accumulated list as
  it was before it and has its exception logged, and the loop goes on with the entry
  points after it. The sinks of every entry point that loads and returns are in the
  result, whatever the other entry points do.
\<close>

theorem C3_failing_plugin_is_logged_and_skipped:
  assumes "entry_points stats_writer_key = Some eps"
  shows "(\<exists>ws out'. register_stats_writer_plugins stats_writer_key entry_points run_options out
                       = (Inr ws, out')) \<and>
         (\<forall>pre ep post ws_pre out_pre e.
            eps = pre @ ep # post \<and>
            plugins_loop pre run_options [] out = (Inr ws_pre, out_pre) \<and>
            (ep_load ep = Inl e \<or>
             (\<exists>plugin_func out1. ep_load ep = Inr plugin_func \<and>
                plugin_func run_options (out_pre @ [LogDebug (initializing_message ep)])
                  = (Inl e, out1)))
            \<longrightarrow> (\<exists>out2. register_stats_writer_plugins stats_writer_key entry_points run_options out
                   = plugins_loop post run_options ws_pre
                       (out2 @ [LogException (error_message ep) e]))) \<and>
         (\<forall>ep plugin_func sinks ws out'.
            ep \<in> set eps \<and> ep_load ep = Inr plugin_func \<and>
            (\<forall>tr. \<exists>tr'. plugin_func run_options tr = (Inr (Sinks sinks), tr')) \<and>
            register_stats_writer_plugins stats_writer_key entry_points run_options out = (Inr ws, out')
            \<longrightarrow> set sinks \<subseteq> set ws)"
proof -
  have reg: "register_stats_writer_plugins stats_writer_key entry_points run_options out =
      plugins_loop eps run_options [] out"
    by (simp add: register_stats_writer_plugins_def assms)
  have 1: "\<exists>ws out'. register_stats_writer_plugins stats_writer_key entry_points run_options out
                       = (Inr ws, out')"
    unfolding reg by (rule plugins_loop_Inr)
  have 2: "\<exists>out2. register_stats_writer_plugins stats_writer_key entry_points run_options out
                   = plugins_loop post run_options ws_pre
                       (out2 @ [LogException (error_message ep) e])"
    if h: "eps = pre @ ep # post \<and>
            plugins_loop pre run_options [] out = (Inr ws_pre, out_pre) \<and>
            (ep_load ep = Inl e \<or>
             (\<exists>plugin_func out1. ep_load ep = Inr plugin_func \<and>
                plugin_func run_options (out_pre @ [LogDebug (initializing_message ep)])
                  = (Inl e, out1)))"
    for pre ep post ws_pre out_pre e
  proof -
    from h have "plugins_loop (pre @ ep # post) run_options [] out =
        plugins_loop (ep # post) run_options ws_pre out_pre"
      by (intro plugins_loop_append) simp
    moreover have "\<exists>out2. try_plugin ep run_options ws_pre out_pre =
        (Inr ws_pre, out2 @ [LogException (error_message ep) e])"
    proof -
      from h consider "ep_load ep = Inl e"
        | plugin_func out1 where "ep_load ep = Inr plugin_func"
            "plugin_func run_options (out_pre @ [LogDebug (initializing_message ep)]) = (Inl e, out1)"
        by blast
      then show ?thesis
      proof cases
        case 1
        then show ?thesis using try_plugin_load_fails [OF 1, of run_options ws_pre out_pre]
          by (metis append_Cons append_Nil append_assoc)
      next
        case 2
        then show ?thesis using try_plugin_call_fails [OF 2, of ws_pre] by blast
      qed
    qed
    ultimately show ?thesis using h reg by auto
  qed
  have 3: "set sinks \<subseteq> set ws"
    if h: "ep \<in> set eps \<and> ep_load ep = Inr plugin_func \<and>
            (\<forall>tr. \<exists>tr'. plugin_func run_options tr = (Inr (Sinks sinks), tr')) \<and>
            register_stats_writer_plugins stats_writer_key entry_points run_options out = (Inr ws, out')"
    for ep plugin_func sinks ws out'
    using h plugins_loop_contains [of ep eps plugin_func run_options sinks "[]" out ws out']
    unfolding reg by blast
  from 1 2 3 show ?thesis by blast
qed

theorem C3_failing_plugin_is_logged_and_skipped_witness:
  "[''mlagents.stats_writer'' \<mapsto> [raising_entry_point, csv_entry_point, unloadable_entry_point]]
     ''mlagents.stats_writer''
     = Some [raising_entry_point, csv_entry_point, unloadable_entry_point] \<and>
   fst (register_stats_writer_plugins ''mlagents.stats_writer''
     [''mlagents.stats_writer'' \<mapsto> [raising_entry_point, csv_entry_point, unloadable_entry_point]]
     sample_run_options []) = Inr [PluginWriter ''CsvWriter''] \<and>
   (\<exists>out2. register_stats_writer_plugins ''mlagents.stats_writer''
     [''mlagents.stats_writer'' \<mapsto> [raising_entry_point, csv_entry_point, unloadable_entry_point]]
     sample_run_options [] =
       plugins_loop [csv_entry_point, unloadable_entry_point] sample_run_options []
         (out2 @ [LogException (error_message raising_entry_point) (OtherError ''RuntimeError'')]))"
proof -
  let ?eps = "[raising_entry_point, csv_entry_point, unloadable_entry_point]"
  let ?reg = "[''mlagents.stats_writer'' \<mapsto> ?eps]"
  have 1: "?reg ''mlagents.stats_writer'' = Some ?eps" by simp
  note c3 = C3_failing_plugin_is_logged_and_skipped
    [where entry_points = ?reg and stats_writer_key = "''mlagents.stats_writer''" and eps = ?eps
       and run_options = sample_run_options and out = "[]", OF 1]
  note run = raising_then_csv [of sample_run_options]
  have 2: "fst (register_stats_writer_plugins ''mlagents.stats_writer'' ?reg sample_run_options [])
      = Inr [PluginWriter ''CsvWriter'']"
    by (simp only: run fst_conv)
  have "?eps = [] @ raising_entry_point # [csv_entry_point, unloadable_entry_point] \<and>
      plugins_loop [] sample_run_options [] [] = (Inr [], []) \<and>
      (ep_load raising_entry_point = Inl (OtherError ''RuntimeError'') \<or>
       (\<exists>plugin_func out1. ep_load raising_entry_point = Inr plugin_func \<and>
          plugin_func sample_run_options ([] @ [LogDebug (initializing_message raising_entry_point)])
            = (Inl (OtherError ''RuntimeError''), out1)))"
    by (simp add: raising_entry_point_def io_lift_def)
  with c3 have 3: "\<exists>out2. register_stats_writer_plugins ''mlagents.stats_writer'' ?reg
      sample_run_options [] =
       plugins_loop [csv_entry_point, unloadable_entry_point] sample_run_options []
         (out2 @ [LogException (error_message raising_entry_point) (OtherError ''RuntimeError'')])"
    by blast
  from 1 2 3 show ?thesis by (intro conjI)
qed

text \<open>
  C4. Serialization coercion probes each key and each value with a JSON serialization,
  keeps what passes and replaces what fails by its string. The code misses the first
  half: on the sample run the hyperparameter \<open>batch_size\<close> is the integer 1024, which
  \<open>json.dumps\<close> encodes, yet \<open>is_jsonable\<close> rejects it (the module never imports
  \<open>json\<close>) and the dict handed to \<open>WandbWriter\<close> holds the string \<open>'1024'\<close> in
  its place.
\<close>

theorem C4_serializable_value_is_replaced:
  "getattr sample_hyperparameters ''batch_size'' = Inr (PyInt 1024) \<and>
   json_dumps (PyInt 1024) = Inr (JInt 1024) \<and>
   is_jsonable (PyInt 1024) = False \<and>
   to_json_serializable [(PyStr ''batch_size'', PyInt 1024)] = [(PyStr ''batch_size'', PyStr ''1024'')] \<and>
   fst (get_default_stats_writers sample_run_options []) = Inr sample_sinks \<and>
   WandbWriter sample_config \<in> set sample_sinks \<and>
   dict_get sample_config (PyStr ''batch_size'') = Some (PyStr ''1024'')"
proof (intro conjI)
  show "getattr sample_hyperparameters ''batch_size'' = Inr (PyInt 1024)"
    by (simp add: getattr_def sample_hyperparameters_def)
  show "json_dumps (PyInt 1024) = Inr (JInt 1024)" by simp
  show "is_jsonable (PyInt 1024) = False" by simp
  show "to_json_serializable [(PyStr ''batch_size'', PyInt 1024)] = [(PyStr ''batch_size'', PyStr ''1024'')]"
    by (simp add: to_json_serializable_eq dict_of_items_def int_str_def nat_digits.simps digit_char_def)
  show "fst (get_default_stats_writers sample_run_options []) = Inr sample_sinks"
    by (simp add: sample_sinks_eq)
  show "WandbWriter sample_config \<in> set sample_sinks" by (simp add: sample_sinks_def)
  show "dict_get sample_config (PyStr ''batch_size'') = Some (PyStr ''1024'')"
    by (simp add: dict_get_def sample_config_def)
qed

text \<open>
  C5. \<open>is_jsonable\<close> returns \<open>False\<close> on every argument: reading the unbound global
  \<open>json\<close> raises \<open>NameError\<close>, which the bare \<open>except\<close> catches. So
  \<open>to_json_serializable\<close> replaces every key and every value by its \<open>str\<close>, and
  every key and every value of the dict handed to \<open>WandbWriter\<close> is a string.
\<close>

theorem C5_every_key_and_value_becomes_a_string:
  "is_jsonable x = False \<and>
   to_json_serializable d = dict_of_items (map (\<lambda>(k, v). (PyStr (py_str k), PyStr (py_str v))) d) \<and>
   (\<forall>(k, v) \<in> set (to_json_serializable d). is_str k \<and> is_str v) \<and>
   (\<forall>ws out' config. get_default_stats_writers run_options out = (Inr ws, out')
       \<and> WandbWriter config \<in> set ws
       \<longrightarrow> (\<forall>(k, v) \<in> set config. is_str k \<and> is_str v))"
proof (intro conjI allI impI)
  show "is_jsonable x = False" by simp
  show "to_json_serializable d = dict_of_items (map (\<lambda>(k, v). (PyStr (py_str k), PyStr (py_str v))) d)"
    by (rule to_json_serializable_eq)
  show "\<forall>(k, v) \<in> set (to_json_serializable d). is_str k \<and> is_str v"
    using to_json_serializable_strings by blast
next
  fix ws out' config
  assume a: "get_default_stats_writers run_options out = (Inr ws, out') \<and> WandbWriter config \<in> set ws"
  then obtain e where "config = to_json_serializable e"
    using get_default_stats_writers_Inr [of run_options out ws out'] by auto
  then show "\<forall>(k, v) \<in> set config. is_str k \<and> is_str v"
    using to_json_serializable_strings by blast
qed

theorem C5_every_key_and_value_becomes_a_string_witness:
  "is_jsonable (PyInt 1024) = False \<and>
   to_json_serializable sample_extracted = sample_config \<and>
   WandbWriter sample_config \<in> set sample_sinks \<and>
   list_all (\<lambda>(k, v). is_str k \<and> is_str v) sample_config"
proof -
  note c5 = C5_every_key_and_value_becomes_a_string
    [of "PyInt 1024" sample_extracted sample_run_options "[]"]
  have 1: "is_jsonable (PyInt 1024) = False" using c5 by blast
  have 2: "to_json_serializable sample_extracted = sample_config"
    by (rule sample_to_json_serializable)
  have 3: "WandbWriter sample_config \<in> set sample_sinks" by (simp add: sample_sinks_def)
  have "\<forall>(k, v) \<in> set sample_config. is_str k \<and> is_str v"
    using c5 sample_sinks_eq [of "[]"] 3 by blast
  then have 4: "list_all (\<lambda>(k, v). is_str k \<and> is_str v) sample_config"
    by (simp add: list_all_iff)
  from 1 2 3 4 show ?thesis by (intro conjI)
qed

text \<open>
  C6. The tensorboard sink that \<open>get_default_stats_writers\<close> constructs receives the
  write path of the checkpoint settings, a clear-past-data flag that is the negation of
  their \<open>resume\<close> (false for \<open>resume = True\<close>, true for \<open>resume = False\<close>), and the
  hidden keys "Is Training" and "Step".
\<close>

theorem C6_tensorboard_sink_arguments:
  assumes "fully_populated run_options"
  shows "\<exists>checkpoint_settings write_path resume rest out'.
     getattr run_options ''checkpoint_settings'' = Inr checkpoint_settings \<and>
     getattr checkpoint_settings ''write_path'' = Inr write_path \<and>
     getattr checkpoint_settings ''resume'' = Inr resume \<and>
     get_default_stats_writers run_options out =
       (Inr (TensorboardWriter write_path (\<not> py_truthy resume) [''Is Training'', ''Step''] # rest),
        out') \<and>
     (resume = PyBool True \<longrightarrow> (\<not> py_truthy resume) = False) \<and>
     (resume = PyBool False \<longrightarrow> (\<not> py_truthy resume) = True)"
proof -
  from fully_populated_success [OF assms] obtain cs b es ep ev ts d wp r where
    "getattr run_options ''checkpoint_settings'' = Inr cs" "getattr cs ''write_path'' = Inr wp"
    "getattr cs ''resume'' = Inr r"
    "\<forall>out. get_default_stats_writers run_options out =
       (Inr [TensorboardWriter wp (\<not> py_truthy r) [''Is Training'', ''Step''],
             GaugeWriter, ConsoleWriter, WandbWriter (to_json_serializable d)],
        out @ printed b cs es ep ev ts d)"
    by blast
  then show ?thesis by auto
qed

theorem C6_tensorboard_sink_arguments_witness:
  "fully_populated sample_run_options \<and>
   (\<exists>rest out'. get_default_stats_writers sample_run_options [] =
       (Inr (TensorboardWriter (PyStr ''results/ball'') False [''Is Training'', ''Step''] # rest),
        out'))"
proof -
  from C6_tensorboard_sink_arguments [OF sample_fully_populated, of "[]"]
  obtain cs wp r rest out' where
    h: "getattr sample_run_options ''checkpoint_settings'' = Inr cs"
      "getattr cs ''write_path'' = Inr wp" "getattr cs ''resume'' = Inr r"
      "get_default_stats_writers sample_run_options [] =
       (Inr (TensorboardWriter wp (\<not> py_truthy r) [''Is Training'', ''Step''] # rest), out')"
    by blast
  from h(1) have cs: "cs = sample_checkpoint_settings"
    by (simp add: getattr_def sample_run_options_def)
  from h(2) have "wp = PyStr ''results/ball''"
    by (simp add: cs getattr_def sample_checkpoint_settings_def)
  moreover from h(3) have "r = PyBool True"
    by (simp add: cs getattr_def sample_checkpoint_settings_def)
  ultimately show ?thesis using h(4) sample_fully_populated by simp
qed

text \<open>
  C7. When \<open>get_default_stats_writers\<close> succeeds, every key and every value of the dict
  it hands to \<open>WandbWriter\<close> is serializer-safe: \<open>json.dumps\<close> encodes it without an
  error and \<open>json.loads\<close> gives it back; so does the dict as a whole.
\<close>

theorem C7_extracted_config_is_serializer_safe:
  assumes "get_default_stats_writers run_options out = (Inr ws, out')"
    and "WandbWriter config \<in> set ws"
  shows "(\<forall>(k, v) \<in> set config.
            (\<exists>j. json_dumps k = Inr j \<and> json_loads j = k) \<and>
            (\<exists>j. json_dumps v = Inr j \<and> json_loads j = v)) \<and>
         (\<exists>j. json_dumps (PyDict config) = Inr j \<and> json_loads j = PyDict config)"
proof -
  from assms obtain d where config: "config = to_json_serializable d"
    using get_default_stats_writers_Inr [of run_options out ws out'] by auto
  have strs: "\<forall>(k, v) \<in> set config. is_str k \<and> is_str v"
    unfolding config using to_json_serializable_strings by blast
  have "distinct (map fst config)" unfolding config by (rule to_json_serializable_distinct)
  with strs have "\<exists>j. json_dumps (PyDict config) = Inr j \<and> json_loads j = PyDict config"
    by (rule string_dict_round_trip)
  moreover have "\<forall>(k, v) \<in> set config.
            (\<exists>j. json_dumps k = Inr j \<and> json_loads j = k) \<and>
            (\<exists>j. json_dumps v = Inr j \<and> json_loads j = v)"
    using strs is_str_round_trip by blast
  ultimately show ?thesis by blast
qed

theorem C7_extracted_config_is_serializer_safe_witness:
  "get_default_stats_writers sample_run_options [] =
     (Inr sample_sinks, snd (get_default_stats_writers sample_run_options [])) \<and>
   WandbWriter sample_config \<in> set sample_sinks \<and>
   (PyStr ''batch_size'', PyStr ''1024'') \<in> set sample_config \<and>
   (\<exists>j. json_dumps (PyStr ''1024'') = Inr j \<and> json_loads j = PyStr ''1024'') \<and>
   (\<exists>j. json_dumps (PyDict sample_config) = Inr j \<and> json_loads j = PyDict sample_config)"
proof -
  have 1: "get_default_stats_writers sample_run_options [] =
     (Inr sample_sinks, snd (get_default_stats_writers sample_run_options []))"
    by (simp add: sample_sinks_eq)
  have 2: "WandbWriter sample_config \<in> set sample_sinks" by (simp add: sample_sinks_def)
  have 3: "(PyStr ''batch_size'', PyStr ''1024'') \<in> set sample_config"
    by (simp add: sample_config_def)
  note c7 = C7_extracted_config_is_serializer_safe [OF 1 2]
  from c7 3 have 4: "\<exists>j. json_dumps (PyStr ''1024'') = Inr j \<and> json_loads j = PyStr ''1024''"
    by blast
  from c7 have 5: "\<exists>j. json_dumps (PyDict sample_config) = Inr j \<and> json_loads j = PyDict sample_config"
    by blast
  from 1 2 3 4 5 show ?thesis by (intro conjI)
qed

text \<open>
  C9, counterexample. The \<open>AttributeError\<close> of run options that miss a field does not
  always reach the caller. With the key present and the package's own entry point
  registered, \<open>get_default_stats_writers\<close> runs inside the \<open>try\<close> block of the loop:
  on run options whose behavior has no \<open>hyperparameters\<close> the error is caught and
  logged there, and \<open>register_stats_writer_plugins\<close> returns normally, with no sinks.
\<close>

theorem C9_counterexample:
  "\<not> fully_populated broken_run_options \<and>
   fst (get_default_stats_writers broken_run_options []) = Inl (AttributeError ''hyperparameters'') \<and>
   fst (register_stats_writer_plugins ''mlagents.stats_writer''
          [''mlagents.stats_writer'' \<mapsto> [default_entry_point]] broken_run_options []) = Inr [] \<and>
   last (snd (register_stats_writer_plugins ''mlagents.stats_writer''
          [''mlagents.stats_writer'' \<mapsto> [default_entry_point]] broken_run_options []))
     = LogException (error_message default_entry_point) (AttributeError ''hyperparameters'')"
proof -
  obtain out1 where g: "get_default_stats_writers broken_run_options
      [LogDebug (initializing_message default_entry_point)]
        = (Inl (AttributeError ''hyperparameters''), out1)"
    using broken_raises [of "[LogDebug (initializing_message default_entry_point)]"]
    by (cases "get_default_stats_writers broken_run_options
      [LogDebug (initializing_message default_entry_point)]") simp
  have "default_plugin broken_run_options ([] @ [LogDebug (initializing_message default_entry_point)])
      = (Inl (AttributeError ''hyperparameters''), out1)"
    by (simp add: default_plugin_def io_bind_def g)
  then have "try_plugin default_entry_point broken_run_options [] [] =
      (Inr [], out1 @ [LogException (error_message default_entry_point)
                         (AttributeError ''hyperparameters'')])"
    by (intro try_plugin_call_fails) (simp add: default_entry_point_def)
  then have "register_stats_writer_plugins ''mlagents.stats_writer''
          [''mlagents.stats_writer'' \<mapsto> [default_entry_point]] broken_run_options [] =
      (Inr [], out1 @ [LogException (error_message default_entry_point)
                         (AttributeError ''hyperparameters'')])"
    by (simp add: register_stats_writer_plugins_def)
  then show ?thesis using broken_not_fully_populated broken_raises [of "[]"] by simp
qed

text \<open>
  C9, amended. Run options that miss an attribute \<open>get_default_stats_writers\<close> reads
  make it raise \<open>AttributeError\<close>; nothing validates them. When the key is absent
  from the registry, the error propagates out of \<open>register_stats_writer_plugins\<close>.
  When the key is present, \<open>register_stats_writer_plugins\<close> returns normally: the
  default factory runs only as a registered plugin, where its error is logged and it
  contributes no sinks, like any other failing plugin.
\<close>

theorem C9_missing_field_propagates_only_without_the_key:
  assumes "\<not> fully_populated run_options"
  shows "(\<exists>a out'. get_default_stats_writers run_options out = (Inl (AttributeError a), out')) \<and>
         (entry_points stats_writer_key = None \<longrightarrow>
            (\<exists>a out'. register_stats_writer_plugins stats_writer_key entry_points run_options out
                         = (Inl (AttributeError a), out'))) \<and>
         (\<forall>eps. entry_points stats_writer_key = Some eps \<longrightarrow>
            (\<exists>ws out'. register_stats_writer_plugins stats_writer_key entry_points run_options out
                          = (Inr ws, out'))) \<and>
         (\<forall>d. entry_points stats_writer_key = Some [d] \<and> ep_load d = Inr default_plugin \<longrightarrow>
            (\<exists>a out'. register_stats_writer_plugins stats_writer_key entry_points run_options out
                         = (Inr [], out' @ [LogException (error_message d) (AttributeError a)])))"
proof (intro conjI allI impI)
  show "\<exists>a out'. get_default_stats_writers run_options out = (Inl (AttributeError a), out')"
    using assms by (rule not_fully_populated_raises)
next
  assume "entry_points stats_writer_key = None"
  then have "register_stats_writer_plugins stats_writer_key entry_points run_options out =
      get_default_stats_writers run_options (out @ [LogWarning (warning_message stats_writer_key)])"
    by (simp add: register_stats_writer_plugins_def)
  then show "\<exists>a out'. register_stats_writer_plugins stats_writer_key entry_points run_options out
                         = (Inl (AttributeError a), out')"
    using not_fully_populated_raises [OF assms] by simp
next
  fix eps
  assume "entry_points stats_writer_key = Some eps"
  then have "register_stats_writer_plugins stats_writer_key entry_points run_options out =
      plugins_loop eps run_options [] out"
    by (simp add: register_stats_writer_plugins_def)
  then show "\<exists>ws out'. register_stats_writer_plugins stats_writer_key entry_points run_options out
                          = (Inr ws, out')"
    using plugins_loop_Inr by simp
next
  fix d
  assume a: "entry_points stats_writer_key = Some [d] \<and> ep_load d = Inr default_plugin"
  obtain e out1 where g: "get_default_stats_writers run_options
      (out @ [LogDebug (initializing_message d)]) = (Inl (AttributeError e), out1)"
    using not_fully_populated_raises [OF assms] by blast
  have "default_plugin run_options (out @ [LogDebug (initializing_message d)])
      = (Inl (AttributeError e), out1)"
    by (simp add: default_plugin_def io_bind_def g)
  moreover from a have "ep_load d = Inr default_plugin" by simp
  ultimately have "try_plugin d run_options [] out =
      (Inr [], out1 @ [LogException (error_message d) (AttributeError e)])"
    by (simp add: try_plugin_call_fails)
  with a show "\<exists>a out'. register_stats_writer_plugins stats_writer_key entry_points run_options out
                         = (Inr [], out' @ [LogException (error_message d) (AttributeError a)])"
    by (simp add: register_stats_writer_plugins_def)
qed

theorem C9_missing_field_propagates_only_without_the_key_witness:
  "\<not> fully_populated broken_run_options \<and>
   (\<exists>a out'. register_stats_writer_plugins ''mlagents.stats_writer'' Map.empty broken_run_options []
                = (Inl (AttributeError a), out')) \<and>
   (\<exists>a out'. register_stats_writer_plugins ''mlagents.stats_writer''
                [''mlagents.stats_writer'' \<mapsto> [default_entry_point]] broken_run_options []
                = (Inr [], out' @ [LogException (error_message default_entry_point) (AttributeError a)]))"
proof -
  note absent = C9_missing_field_propagates_only_without_the_key
    [OF broken_not_fully_populated, where entry_points = Map.empty
       and stats_writer_key = "''mlagents.stats_writer''" and out = "[]"]
  note present = C9_missing_field_propagates_only_without_the_key
    [OF broken_not_fully_populated,
     where entry_points = "[''mlagents.stats_writer'' \<mapsto> [default_entry_point]]"
       and stats_writer_key = "''mlagents.stats_writer''" and out = "[]"]
  have 1: "\<exists>a out'. register_stats_writer_plugins ''mlagents.stats_writer'' Map.empty
      broken_run_options [] = (Inl (AttributeError a), out')"
    using absent by simp
  have "[''mlagents.stats_writer'' \<mapsto> [default_entry_point]] ''mlagents.stats_writer''
      = Some [default_entry_point] \<and> ep_load default_entry_point = Inr default_plugin"
    by (simp add: default_entry_point_def)
  with present have 2: "\<exists>a out'. register_stats_writer_plugins ''mlagents.stats_writer''
                [''mlagents.stats_writer'' \<mapsto> [default_entry_point]] broken_run_options []
                = (Inr [], out' @ [LogException (error_message default_entry_point) (AttributeError a)])"
    by blast
  from broken_not_fully_populated 1 2 show ?thesis by (intro conjI)
qed

text \<open>
  C10. For each behavior the loop first updates \<open>extracted_data\<close> with the attributes
  of the hyperparameters, then with the behavior's own attributes. So where an
  attribute of the behavior has the name of one of its hyperparameters, the key holds
  the hyperparameter's value after the first update and the behavior's value after the
  second. When that behavior is the last one and the name has none of the three
  settings prefixes, the dict handed to \<open>WandbWriter\<close> holds the string of the
  behavior's value.
\<close>

theorem C10_behavior_attribute_overwrites_hyperparameter:
  assumes "getattr behavior_settings ''hyperparameters'' = Inr hp"
    and "getattr hp key = Inr w" and "\<not> callable w"
    and "getattr behavior_settings key = Inr v" and "\<not> callable v"
    and "\<not> startswith key ''__''"
  shows "(\<exists>hyperparams behavior_data.
            get_attributes hp = Inr hyperparams \<and>
            get_attributes behavior_settings = Inr behavior_data \<and>
            behaviors_loop ((behavior_name, behavior_settings) # rest) extracted_data =
              behaviors_loop rest
                (dict_update (dict_update extracted_data (format_keys [] hyperparams))
                   (format_keys [] behavior_data)) \<and>
            dict_get (dict_update extracted_data (format_keys [] hyperparams)) (PyStr key) = Some w \<and>
            dict_get (dict_update (dict_update extracted_data (format_keys [] hyperparams))
                        (format_keys [] behavior_data)) (PyStr key) = Some v) \<and>
         (\<forall>earlier ws out' config.
            getattr run_options ''behaviors''
              = Inr (PyDict (earlier @ [(behavior_name, behavior_settings)])) \<and>
            (\<forall>s \<in> set settings_list. \<not> startswith key (s @ ''_'')) \<and>
            get_default_stats_writers run_options out = (Inr ws, out') \<and>
            WandbWriter config \<in> set ws
            \<longrightarrow> dict_get config (PyStr key) = Some (PyStr (py_str v)))"
proof (intro conjI allI impI)
  obtain hps where hps: "get_attributes hp = Inr hps" using get_attributes_total by blast
  obtain bd where bd: "get_attributes behavior_settings = Inr bd"
    using get_attributes_total by blast
  have "behaviors_loop ((behavior_name, behavior_settings) # rest) extracted_data =
      behaviors_loop rest
        (dict_update (dict_update extracted_data (format_keys [] hps)) (format_keys [] bd))"
    by (simp add: assms(1) hps bd)
  moreover have "dict_get (dict_update extracted_data (format_keys [] hps)) (PyStr key) = Some w"
    unfolding dict_get_def by (rule behavior_step_lookup [OF hps assms(2,3,6)])
  moreover have "dict_get (dict_update (dict_update extracted_data (format_keys [] hps))
                        (format_keys [] bd)) (PyStr key) = Some v"
    unfolding dict_get_def by (rule behavior_step_lookup [OF bd assms(4,5,6)])
  ultimately show "\<exists>hyperparams behavior_data.
            get_attributes hp = Inr hyperparams \<and>
            get_attributes behavior_settings = Inr behavior_data \<and>
            behaviors_loop ((behavior_name, behavior_settings) # rest) extracted_data =
              behaviors_loop rest
                (dict_update (dict_update extracted_data (format_keys [] hyperparams))
                   (format_keys [] behavior_data)) \<and>
            dict_get (dict_update extracted_data (format_keys [] hyperparams)) (PyStr key) = Some w \<and>
            dict_get (dict_update (dict_update extracted_data (format_keys [] hyperparams))
                        (format_keys [] behavior_data)) (PyStr key) = Some v"
    using hps bd by blast
next
  fix earlier ws out' config
  assume a: "getattr run_options ''behaviors''
              = Inr (PyDict (earlier @ [(behavior_name, behavior_settings)])) \<and>
            (\<forall>s \<in> set settings_list. \<not> startswith key (s @ ''_'')) \<and>
            get_default_stats_writers run_options out = (Inr ws, out') \<and>
            WandbWriter config \<in> set ws"
  then obtain d where d: "extract_data run_options = Inr d" and c: "config = to_json_serializable d"
    using get_default_stats_writers_Inr [of run_options out ws out'] by auto
  from a have "map_of d (PyStr key) = Some v"
    using extract_data_last_behavior [OF _ d assms(4,5,6)] by blast
  then show "dict_get config (PyStr key) = Some (PyStr (py_str v))"
    unfolding dict_get_def c
    using extract_data_keys [OF d] by (intro to_json_serializable_lookup)
qed

theorem C10_behavior_attribute_overwrites_hyperparameter_witness:
  "getattr colliding_behavior ''hyperparameters'' = Inr sample_hyperparameters \<and>
   getattr sample_hyperparameters ''batch_size'' = Inr (PyInt 1024) \<and>
   getattr colliding_behavior ''batch_size'' = Inr (PyInt 7) \<and>
   (\<exists>hyperparams behavior_data.
      get_attributes sample_hyperparameters = Inr hyperparams \<and>
      get_attributes colliding_behavior = Inr behavior_data \<and>
      dict_get (dict_update [] (format_keys [] hyperparams)) (PyStr ''batch_size'')
        = Some (PyInt 1024) \<and>
      dict_get (dict_update (dict_update [] (format_keys [] hyperparams))
                  (format_keys [] behavior_data)) (PyStr ''batch_size'') = Some (PyInt 7)) \<and>
   (\<exists>ws out' config. get_default_stats_writers colliding_run_options [] = (Inr ws, out') \<and>
      WandbWriter config \<in> set ws \<and>
      dict_get config (PyStr ''batch_size'') = Some (PyStr ''7''))"
proof -
  have 1: "getattr colliding_behavior ''hyperparameters'' = Inr sample_hyperparameters"
    by (simp add: getattr_def colliding_behavior_def)
  have 2: "getattr sample_hyperparameters ''batch_size'' = Inr (PyInt 1024)"
    by (simp add: getattr_def sample_hyperparameters_def)
  have 3: "getattr colliding_behavior ''batch_size'' = Inr (PyInt 7)"
    by (simp add: getattr_def colliding_behavior_def)
  have 4: "\<not> callable (PyInt 1024)" "\<not> callable (PyInt 7)" by simp_all
  have 5: "\<not> startswith ''batch_size'' ''__''" by (simp add: startswith_def)
  note c10 = C10_behavior_attribute_overwrites_hyperparameter
    [where behavior_name = "PyStr ''Walker''" and rest = "[]" and extracted_data = "[]"
       and run_options = colliding_run_options and out = "[]", OF 1 2 4(1) 3 4(2) 5]
  from c10 have 6: "\<exists>hyperparams behavior_data.
      get_attributes sample_hyperparameters = Inr hyperparams \<and>
      get_attributes colliding_behavior = Inr behavior_data \<and>
      dict_get (dict_update [] (format_keys [] hyperparams)) (PyStr ''batch_size'')
        = Some (PyInt 1024) \<and>
      dict_get (dict_update (dict_update [] (format_keys [] hyperparams))
                  (format_keys [] behavior_data)) (PyStr ''batch_size'') = Some (PyInt 7)"
    by blast
  from fully_populated_success [OF colliding_fully_populated]
  obtain cs b es ep ev ts d wp r where
    g: "\<forall>out. get_default_stats_writers colliding_run_options out =
       (Inr [TensorboardWriter wp (\<not> py_truthy r) [''Is Training'', ''Step''],
             GaugeWriter, ConsoleWriter, WandbWriter (to_json_serializable d)],
        out @ printed b cs es ep ev ts d)"
    by blast
  let ?ws = "[TensorboardWriter wp (\<not> py_truthy r) [''Is Training'', ''Step''],
             GaugeWriter, ConsoleWriter, WandbWriter (to_json_serializable d)]"
  from g have run: "get_default_stats_writers colliding_run_options [] =
      (Inr ?ws, [] @ printed b cs es ep ev ts d)"
    by blast
  have mem: "WandbWriter (to_json_serializable d) \<in> set ?ws" by simp
  have beh: "getattr colliding_run_options ''behaviors'' =
      Inr (PyDict ([(PyStr ''3DBall'', sample_behavior)] @ [(PyStr ''Walker'', colliding_behavior)]))"
    by (simp add: getattr_def colliding_run_options_def)
  have pre: "\<forall>s \<in> set settings_list. \<not> startswith ''batch_size'' (s @ ''_'')"
    by (simp add: settings_list_def startswith_def)
  from c10 beh pre run mem
  have "dict_get (to_json_serializable d) (PyStr ''batch_size'') = Some (PyStr (py_str (PyInt 7)))"
    by blast
  moreover have "py_str (PyInt 7) = ''7''"
    by (simp add: int_str_def nat_digits.simps digit_char_def)
  ultimately have 7: "\<exists>ws out' config.
      get_default_stats_writers colliding_run_options [] = (Inr ws, out') \<and>
      WandbWriter config \<in> set ws \<and>
      dict_get config (PyStr ''batch_size'') = Some (PyStr ''7'')"
    using run mem by metis
  from 1 2 3 6 7 show ?thesis by (intro conjI)
qed

end
